theory Spec2Isabelle
  imports Complex_Main "HOL-Library.Char_ord" "HOL-Library.List_Lexorder"
begin

section \<open>Data model\<close>

text \<open>
  The connector hands the dashboard a \<^verbatim>\<open>List[Dict]\<close>: one dictionary per job or
  candidate, with the field names of the API as keys. A field value is a string or JSON
  null; a key may be absent from a dictionary. Strings are compared as Python compares
  them, by code point (characters are the 8-bit characters of HOL).
\<close>

datatype jval = JNull | JStr string

type_synonym raw_record = "(string \<times> jval) list"

text \<open>
  A cell of a data frame: a missing value (NaN, NaT, None), a string, a timestamp, a whole
  number, or a calendar period given by its ordinal. A timezone-naive timestamp
  \<open>Time t\<close> is wall-clock time in nanoseconds since the epoch; a timezone-aware one
  \<open>TimeTz t off\<close> is the instant \<open>t\<close> in nanoseconds since the epoch in UTC, with its
  offset from UTC.
\<close>

datatype cell = NA | Str string | Time int | TimeTz int int | Num int | Period int

text \<open>
  The exceptions that occur: a column that does not exist, \<^verbatim>\<open>.get\<close> called on a
  JSON value that is not an object, a date column the library refuses to convert, and
  timezone-aware dates met with timezone-naive ones.
\<close>

datatype error =
  KeyError "string list" | AttributeError string | ValueError string | TypeError string

record frame =
  columns :: "string list"
  rows :: "(string \<Rightarrow> cell) list"

record dashboard =
  jobs_df :: frame
  candidates_df :: frame

text \<open>Values stored in the metrics dictionary: Python ints, floats (as exact rationals) and strings.\<close>

datatype mval = MInt int | MFloat rat | MStr string

section \<open>The data-frame operations the dashboard uses\<close>

text \<open>Keeps the first occurrence of every element, in order.\<close>

definition uniq :: "'a list \<Rightarrow> 'a list" where
  "uniq xs = rev (remdups (rev xs))"

definition cell_of :: "jval option \<Rightarrow> cell" where
  "cell_of v = (case v of Some (JStr s) \<Rightarrow> Str s | _ \<Rightarrow> NA)"

text \<open>
  \<^verbatim>\<open>pd.DataFrame(data)\<close> for a list of dictionaries: the columns are the keys that occur,
  a key absent from a dictionary (and a null) is a missing value in that row.
\<close>

definition DataFrame :: "raw_record list \<Rightarrow> frame" where
  "DataFrame data =
     \<lparr>columns = uniq (concat (map (map fst) data)),
      rows = map (\<lambda>d k. cell_of (map_of d k)) data\<rparr>"

text \<open>\<^verbatim>\<open>df.empty\<close>: one of the two axes has length 0.\<close>

definition is_empty :: "frame \<Rightarrow> bool" where
  "is_empty df \<longleftrightarrow> rows df = [] \<or> columns df = []"

text \<open>\<^verbatim>\<open>df[c]\<close> raises KeyError when there is no column \<^verbatim>\<open>c\<close>.\<close>

definition getitem :: "frame \<Rightarrow> string \<Rightarrow> error + cell list" where
  "getitem df c =
     (if c \<in> set (columns df) then Inr (map (\<lambda>r. r c) (rows df)) else Inl (KeyError [c]))"

text \<open>\<^verbatim>\<open>df[c] = vs\<close> replaces the column or appends it.\<close>

definition setitem :: "frame \<Rightarrow> string \<Rightarrow> cell list \<Rightarrow> frame" where
  "setitem df c vs =
     \<lparr>columns = (if c \<in> set (columns df) then columns df else columns df @ [c]),
      rows = map (\<lambda>(r, v). r(c := v)) (zip (rows df) vs)\<rparr>"

text \<open>Nanoseconds in a day.\<close>

definition day :: int where
  "day = 86400000000000"

text \<open>
  \<^verbatim>\<open>pd.to_datetime(col, errors='coerce')\<close> is a function of the library and a parameter
  of the model. It sees the whole column: it may raise, and otherwise it settles, from the
  column, how each string is read and whether the result is timezone-naive or
  timezone-aware. A \<open>conv\<close> is that outcome: the reading of a string, \<open>None\<close> for one that
  does not parse, which \<^verbatim>\<open>errors='coerce'\<close> turns into NaT. A cell that is not a string
  is missing in the records of the connector, and stays missing.
\<close>

datatype conv = Naive "string \<Rightarrow> int option" | Aware "string \<Rightarrow> (int \<times> int) option"

type_synonym converter = "cell list \<Rightarrow> error + conv"

definition coerce :: "conv \<Rightarrow> cell \<Rightarrow> cell" where
  "coerce cv c =
     (case cv of
        Naive parse \<Rightarrow>
          (case c of
             Str s \<Rightarrow> (case parse s of Some t \<Rightarrow> Time t | None \<Rightarrow> NA)
           | _ \<Rightarrow> NA)
      | Aware parse \<Rightarrow>
          (case c of
             Str s \<Rightarrow> (case parse s of Some (t, off) \<Rightarrow> TimeTz t off | None \<Rightarrow> NA)
           | _ \<Rightarrow> NA))"

text \<open>
  A datetime column is timezone-aware when it holds a timezone-aware timestamp: the
  library gives a column a timezone only when a string of it parses with an offset.
\<close>

fun is_tz :: "cell \<Rightarrow> bool" where
  "is_tz (TimeTz t off) = True"
| "is_tz _ = False"

definition aware :: "cell list \<Rightarrow> bool" where
  "aware col = list_ex is_tz col"

text \<open>
  \<^verbatim>\<open>(closed - posted).dt.days\<close>. The subtraction of a timezone-aware column and a
  timezone-naive one raises TypeError. On two cells of the same kind, the result is the
  days component of the difference, which rounds towards minus infinity; it is missing
  when either side is.
\<close>

fun days_between :: "cell \<Rightarrow> cell \<Rightarrow> cell" where
  "days_between (Time c) (Time p) = Num ((c - p) div day)"
| "days_between (TimeTz c co) (TimeTz p po) = Num ((c - p) div day)"
| "days_between _ _ = NA"

definition sub_days :: "cell list \<Rightarrow> cell list \<Rightarrow> error + cell list" where
  "sub_days c p =
     (if aware c \<noteq> aware p
      then Inl (TypeError ''Cannot subtract tz-naive and tz-aware datetime-like objects'')
      else Inr (map (\<lambda>(x, y). days_between x y) (zip c p)))"

text \<open>
  \<^verbatim>\<open>.dt.to_period('W')\<close>: weeks run from Monday to Sunday; day 0 (1970-01-01) is a
  Thursday, so the Monday of its week is day -3.
\<close>

definition week_of :: "int \<Rightarrow> int" where
  "week_of t = (t div day + 3) div 7"

text \<open>
  \<^verbatim>\<open>.dt.to_period('M')\<close>: the month of the civil date of a day number, counted from
  January 1970.
\<close>

definition month_of :: "int \<Rightarrow> int" where
  "month_of t =
     (let z = t div day + 719468;
          era = z div 146097;
          doe = z - era * 146097;
          yoe = (doe - doe div 1460 + doe div 36524 - doe div 146096) div 365;
          doy = doe - (365 * yoe + yoe div 4 - yoe div 100);
          mp = (5 * doy + 2) div 153;
          m = (if mp < 10 then mp + 3 else mp - 9);
          y = yoe + era * 400 + (if m \<le> 2 then 1 else 0)
      in (y - 1970) * 12 + (m - 1))"

text \<open>
  The period of a timestamp is that of its wall-clock time: for a timezone-aware
  timestamp the conversion drops the timezone and keeps the local time.
\<close>

definition period_of :: "(int \<Rightarrow> int) \<Rightarrow> cell \<Rightarrow> cell" where
  "period_of bucket c =
     (case c of
        Time t \<Rightarrow> Period (bucket t)
      | TimeTz t off \<Rightarrow> Period (bucket (t + off))
      | _ \<Rightarrow> NA)"

definition to_period :: "(int \<Rightarrow> int) \<Rightarrow> cell list \<Rightarrow> cell list" where
  "to_period bucket col = map (period_of bucket) col"

text \<open>The values of a column that are present, by kind.\<close>

fun nums :: "cell list \<Rightarrow> int list" where
  "nums [] = []"
| "nums (Num n # cs) = n # nums cs"
| "nums (_ # cs) = nums cs"

fun strs :: "cell list \<Rightarrow> string list" where
  "strs [] = []"
| "strs (Str s # cs) = s # strs cs"
| "strs (_ # cs) = strs cs"

fun periods :: "cell list \<Rightarrow> int list" where
  "periods [] = []"
| "periods (Period p # cs) = p # periods cs"
| "periods (_ # cs) = periods cs"

text \<open>\<^verbatim>\<open>mean()\<close> of the values present; the float result is an exact rational here.\<close>

definition mean :: "int list \<Rightarrow> rat" where
  "mean xs = of_int (sum_list xs) / of_nat (length xs)"

text \<open>
  \<^verbatim>\<open>value_counts()\<close>: the values present with their counts, most frequent first;
  values with the same count stay in the order of their first occurrence.
\<close>

definition value_counts :: "string list \<Rightarrow> (string \<times> nat) list" where
  "value_counts xs =
     sort_key (\<lambda>(k, n). - int n) (map (\<lambda>k. (k, count_list xs k)) (uniq xs))"

section \<open>RecruitmentDashboard._preprocess_data\<close>

text \<open>
  One round of the loop over \<^verbatim>\<open>date_columns\<close>: a column is converted only if it
  exists, and the conversion may raise.
\<close>

definition convert_column :: "converter \<Rightarrow> string \<Rightarrow> frame \<Rightarrow> error + frame" where
  "convert_column to_datetime col df =
     (if col \<in> set (columns df) then
        case to_datetime (map (\<lambda>r. r col) (rows df)) of
          Inl e \<Rightarrow> Inl e
        | Inr cv \<Rightarrow> Inr (setitem df col (map (coerce cv) (map (\<lambda>r. r col) (rows df))))
      else Inr df)"

fun convert_dates :: "converter \<Rightarrow> string list \<Rightarrow> frame \<Rightarrow> error + frame" where
  "convert_dates to_datetime [] df = Inr df"
| "convert_dates to_datetime (col # date_columns) df =
     (case convert_column to_datetime col df of
        Inl e \<Rightarrow> Inl e
      | Inr df1 \<Rightarrow> convert_dates to_datetime date_columns df1)"

definition preprocess_jobs :: "converter \<Rightarrow> frame \<Rightarrow> error + frame" where
  "preprocess_jobs to_datetime df =
     (if \<not> is_empty df then
        case convert_dates to_datetime [''dateposted'', ''dateclosed''] df of
          Inl e \<Rightarrow> Inl e
        | Inr df1 \<Rightarrow>
            (case getitem df1 ''dateclosed'' of Inl e \<Rightarrow> Inl e | Inr dateclosed \<Rightarrow>
             case getitem df1 ''dateposted'' of Inl e \<Rightarrow> Inl e | Inr dateposted \<Rightarrow>
             case sub_days dateclosed dateposted of Inl e \<Rightarrow> Inl e | Inr days \<Rightarrow>
               Inr (setitem df1 ''days_to_fill'' days))
      else Inr df)"

definition preprocess_candidates :: "converter \<Rightarrow> frame \<Rightarrow> error + frame" where
  "preprocess_candidates to_datetime df =
     (if \<not> is_empty df then
        case convert_dates to_datetime [''dateadded''] df of
          Inl e \<Rightarrow> Inl e
        | Inr df1 \<Rightarrow>
            (case getitem df1 ''dateadded'' of Inl e \<Rightarrow> Inl e | Inr added \<Rightarrow>
               let df2 = setitem df1 ''week'' (to_period week_of added) in
               case getitem df2 ''dateadded'' of Inl e \<Rightarrow> Inl e | Inr added2 \<Rightarrow>
                 Inr (setitem df2 ''month'' (to_period month_of added2)))
      else Inr df)"

definition preprocess_data :: "converter \<Rightarrow> dashboard \<Rightarrow> error + dashboard" where
  "preprocess_data to_datetime self =
     (case preprocess_jobs to_datetime (jobs_df self) of Inl e \<Rightarrow> Inl e | Inr jobs \<Rightarrow>
      case preprocess_candidates to_datetime (candidates_df self) of Inl e \<Rightarrow> Inl e | Inr cands \<Rightarrow>
        Inr \<lparr>jobs_df = jobs, candidates_df = cands\<rparr>)"

section \<open>RecruitmentDashboard.calculate_metrics\<close>

text \<open>
  The two guarded blocks of the method, each adding its keys to \<^verbatim>\<open>metrics\<close>.
  \<open>now\<close> is the value of \<^verbatim>\<open>datetime.now()\<close>, a timezone-naive time. The method runs
  on a dashboard that \<^verbatim>\<open>_preprocess_data\<close> has left, where the date column holds
  timestamps or NaT. Comparing a timezone-aware column with \<open>now\<close> raises TypeError; a
  comparison with NaT is false.
\<close>

definition job_metrics :: "frame \<Rightarrow> (string \<rightharpoonup> mval) \<Rightarrow> error + (string \<rightharpoonup> mval)" where
  "job_metrics df metrics =
     (let m1 = metrics(''total_jobs'' \<mapsto> MInt (int (length (rows df)))) in
      case getitem df ''status'' of Inl e \<Rightarrow> Inl e | Inr status \<Rightarrow>
      let m2 = m1(''open_jobs'' \<mapsto> MInt (int (length (filter (\<lambda>c. c = Str ''open'') status))));
          m3 = m2(''closed_jobs'' \<mapsto> MInt (int (length (filter (\<lambda>c. c = Str ''closed'') status))))
      in
      case getitem df ''days_to_fill'' of Inl e \<Rightarrow> Inl e | Inr dtf \<Rightarrow>
      let filled_jobs = nums dtf in
        Inr (m3(''avg_time_to_fill'' \<mapsto>
               (if filled_jobs \<noteq> [] then MFloat (mean filled_jobs) else MInt 0))))"

definition candidate_metrics :: "int \<Rightarrow> frame \<Rightarrow> (string \<rightharpoonup> mval) \<Rightarrow> error + (string \<rightharpoonup> mval)" where
  "candidate_metrics now df metrics =
     (let m1 = metrics(''total_candidates'' \<mapsto> MInt (int (length (rows df)))) in
      case getitem df ''dateadded'' of Inl e \<Rightarrow> Inl e | Inr added \<Rightarrow>
      if aware added
      then Inl (TypeError ''Invalid comparison between tz-aware dtype and datetime'')
      else
      let m2 = m1(''candidates_this_month'' \<mapsto>
                 MInt (int (length (filter (\<lambda>c. case c of Time t \<Rightarrow> t \<ge> now - 30 * day | _ \<Rightarrow> False) added))))
      in
      case getitem df ''source'' of Inl e \<Rightarrow> Inl e | Inr source \<Rightarrow>
      let source_counts = value_counts (strs source) in
        Inr (m2(''top_source'' \<mapsto>
               MStr (if source_counts \<noteq> [] then fst (hd source_counts) else ''N/A''))))"

definition calculate_metrics :: "int \<Rightarrow> dashboard \<Rightarrow> error + (string \<rightharpoonup> mval)" where
  "calculate_metrics now self =
     (case (if \<not> is_empty (jobs_df self) then job_metrics (jobs_df self) Map.empty
            else Inr Map.empty) of
        Inl e \<Rightarrow> Inl e
      | Inr metrics \<Rightarrow>
          if \<not> is_empty (candidates_df self) then candidate_metrics now (candidates_df self) metrics
          else Inr metrics)"

text \<open>\<^verbatim>\<open>metrics.get(key, default)\<close>, as the page reads the metrics.\<close>

definition get :: "(string \<rightharpoonup> mval) \<Rightarrow> string \<Rightarrow> mval \<Rightarrow> mval" where
  "get metrics key dflt = (case metrics key of Some v \<Rightarrow> v | None \<Rightarrow> dflt)"

section \<open>The tables behind the charts\<close>

text \<open>
  \<^verbatim>\<open>groupby(key)\<close> with the defaults of the library: rows whose key is missing are
  dropped, and the groups come in ascending order of the key.
\<close>

definition groupby_keys :: "cell list \<Rightarrow> string list" where
  "groupby_keys col = sort (remdups (strs col))"

text \<open>\<^verbatim>\<open>'count'\<close>: the number of values present.\<close>

definition count :: "cell list \<Rightarrow> nat" where
  "count col = length (filter (\<lambda>c. c \<noteq> NA) col)"

text \<open>\<^verbatim>\<open>'mean'\<close> of a group: NaN (here \<open>None\<close>) when no value is present.\<close>

definition group_mean :: "cell list \<Rightarrow> rat option" where
  "group_mean col = (if nums col = [] then None else Some (mean (nums col)))"

text \<open>Aggregating by a dictionary raises KeyError for the columns that do not exist.\<close>

definition missing_columns :: "frame \<Rightarrow> string list \<Rightarrow> string list" where
  "missing_columns df cs = filter (\<lambda>c. c \<notin> set (columns df)) cs"

record position_row =
  Position :: string
  Total_Jobs :: nat
  Avg_Days_to_Fill :: "rat option"
  Open_Jobs :: nat

text \<open>
  \<^verbatim>\<open>create_position_metrics_chart\<close>: the value is the table \<^verbatim>\<open>position_metrics\<close>
  whose columns the two bar traces of the figure plot; the empty figure has no rows.
\<close>

definition create_position_metrics_chart :: "dashboard \<Rightarrow> error + position_row list" where
  "create_position_metrics_chart self =
     (let df = jobs_df self in
      if is_empty df then Inr []
      else
        case getitem df ''title'' of Inl e \<Rightarrow> Inl e | Inr title \<Rightarrow>
        if missing_columns df [''id'', ''days_to_fill'', ''status''] \<noteq> []
        then Inl (KeyError (missing_columns df [''id'', ''days_to_fill'', ''status'']))
        else
          Inr (take 15
                 (map (\<lambda>k. let g = filter (\<lambda>r. r ''title'' = Str k) (rows df) in
                         \<lparr>Position = k,
                          Total_Jobs = count (map (\<lambda>r. r ''id'') g),
                          Avg_Days_to_Fill = group_mean (map (\<lambda>r. r ''days_to_fill'') g),
                          Open_Jobs = length (filter (\<lambda>c. c = Str ''open'') (map (\<lambda>r. r ''status'') g))\<rparr>)
                      (groupby_keys title))))"

text \<open>
  The recruiter table after the merge: \<open>Recruiter_Jobs\<close> and \<open>Recruiter_Days\<close> are the
  columns \<^verbatim>\<open>Total_Jobs\<close> and \<^verbatim>\<open>Avg_Days_to_Fill\<close> of \<^verbatim>\<open>recruiter_metrics\<close>.
\<close>

record recruiter_row =
  Recruiter :: string
  Recruiter_Jobs :: rat
  Recruiter_Days :: rat
  Total_Candidates :: rat

text \<open>\<^verbatim>\<open>recruiter_jobs\<close>: per recruiter, the count of ids and the mean days to fill.\<close>

definition recruiter_jobs :: "frame \<Rightarrow> cell list \<Rightarrow> (string \<times> nat \<times> rat option) list" where
  "recruiter_jobs df recruiter =
     map (\<lambda>k. let g = filter (\<lambda>r. r ''recruiter'' = Str k) (rows df) in
             (k, count (map (\<lambda>r. r ''id'') g), group_mean (map (\<lambda>r. r ''days_to_fill'') g)))
         (groupby_keys recruiter)"

text \<open>\<^verbatim>\<open>recruiter_candidates\<close>: per recruiter, the size of the group.\<close>

definition recruiter_candidates :: "cell list \<Rightarrow> (string \<times> nat) list" where
  "recruiter_candidates recruiter =
     map (\<lambda>k. (k, length (filter (\<lambda>c. c = Str k) recruiter))) (groupby_keys recruiter)"

text \<open>
  \<^verbatim>\<open>pd.merge(left, right, on='Recruiter', how='outer')\<close>: one row for every key of either
  table, in ascending order of the key; the columns of a table without the key are missing.
\<close>

definition merge_outer ::
  "(string \<times> nat \<times> rat option) list \<Rightarrow> (string \<times> nat) list
     \<Rightarrow> (string \<times> (nat \<times> rat option) option \<times> nat option) list" where
  "merge_outer left right =
     map (\<lambda>k. (k, map_of left k, map_of right k)) (sort (remdups (map fst left @ map fst right)))"

text \<open>\<^verbatim>\<open>fillna(0)\<close> on a row of the merged table.\<close>

definition fillna0 :: "string \<times> (nat \<times> rat option) option \<times> nat option \<Rightarrow> recruiter_row" where
  "fillna0 row =
     (case row of (k, l, r) \<Rightarrow>
        \<lparr>Recruiter = k,
         Recruiter_Jobs = (case l of Some (n, _) \<Rightarrow> of_nat n | None \<Rightarrow> 0),
         Recruiter_Days = (case l of Some (_, Some a) \<Rightarrow> a | _ \<Rightarrow> 0),
         Total_Candidates = (case r of Some m \<Rightarrow> of_nat m | None \<Rightarrow> 0)\<rparr>)"

text \<open>
  \<^verbatim>\<open>create_recruiter_metrics_chart\<close>: the value is the table \<^verbatim>\<open>recruiter_metrics\<close>
  together with the series \<^verbatim>\<open>efficiency\<close>, which the four bar traces plot.
\<close>

definition create_recruiter_metrics_chart :: "dashboard \<Rightarrow> error + (recruiter_row list \<times> rat list)" where
  "create_recruiter_metrics_chart self =
     (if is_empty (jobs_df self) \<or> is_empty (candidates_df self) then Inr ([], [])
      else
        case getitem (jobs_df self) ''recruiter'' of Inl e \<Rightarrow> Inl e | Inr jr \<Rightarrow>
        if missing_columns (jobs_df self) [''id'', ''days_to_fill''] \<noteq> []
        then Inl (KeyError (missing_columns (jobs_df self) [''id'', ''days_to_fill'']))
        else
          case getitem (candidates_df self) ''recruiter'' of Inl e \<Rightarrow> Inl e | Inr cr \<Rightarrow>
            let recruiter_metrics =
                  take 10 (map fillna0
                             (merge_outer (recruiter_jobs (jobs_df self) jr) (recruiter_candidates cr)));
                efficiency =
                  map (\<lambda>r. Total_Candidates r / (Recruiter_Jobs r + 1)) recruiter_metrics
            in Inr (recruiter_metrics, efficiency))"

text \<open>
  \<^verbatim>\<open>create_timeline_chart\<close>: the value is \<^verbatim>\<open>weekly_data\<close>, the weeks and the sizes of
  their groups, which the trace plots in this order.
\<close>

definition create_timeline_chart :: "dashboard \<Rightarrow> error + (int \<times> nat) list" where
  "create_timeline_chart self =
     (if is_empty (candidates_df self) then Inr []
      else
        case getitem (candidates_df self) ''week'' of Inl e \<Rightarrow> Inl e | Inr week \<Rightarrow>
          Inr (map (\<lambda>k. (k, length (filter (\<lambda>c. c = Period k) week)))
                   (sort (remdups (periods week)))))"

section \<open>A date format\<close>

text \<open>
  Modelled from the spec: the "defined format" of date strings is not in the repository,
  whose code calls the converter of the library. This instance of the converter reads two
  formats: the calendar date \<^verbatim>\<open>YYYY-MM-DD\<close>, which gives the timezone-naive midnight
  of that day, and the instant \<^verbatim>\<open>YYYY-MM-DDTHH:MM:SS+HH:MM\<close> with its offset from UTC,
  which gives a timezone-aware timestamp. As the library does, it takes the format of a
  column from its first string, reads every string in that format, the others becoming
  missing, and raises when the instants of a column have different offsets. When the
  first string is in neither format it reads each string on its own, and raises when
  naive and aware timestamps would mix.
\<close>

definition days_from_civil :: "int \<Rightarrow> int \<Rightarrow> int \<Rightarrow> int" where
  "days_from_civil y m d =
     (let y1 = (if m \<le> 2 then y - 1 else y);
          era = y1 div 400;
          yoe = y1 - era * 400;
          doy = (153 * (if m > 2 then m - 3 else m + 9) + 2) div 5 + d - 1;
          doe = yoe * 365 + yoe div 4 - yoe div 100 + doy
      in era * 146097 + doe - 719468)"

definition days_in_month :: "int \<Rightarrow> int \<Rightarrow> int" where
  "days_in_month y m =
     (if m = 2 then (if y mod 4 = 0 \<and> (y mod 100 \<noteq> 0 \<or> y mod 400 = 0) then 29 else 28)
      else if m = 4 \<or> m = 6 \<or> m = 9 \<or> m = 11 then 30 else 31)"

fun digits :: "int \<Rightarrow> string \<Rightarrow> int option" where
  "digits acc [] = Some acc"
| "digits acc (c # cs) =
     (let n = (of_char c :: nat) in
      if 48 \<le> n \<and> n \<le> 57 then digits (10 * acc + int n - 48) cs else None)"

definition iso_date :: "string \<Rightarrow> int option" where
  "iso_date s =
     (if length s = 10 \<and> s ! 4 = CHR ''-'' \<and> s ! 7 = CHR ''-'' then
        case (digits 0 (take 4 s), digits 0 (take 2 (drop 5 s)), digits 0 (drop 8 s)) of
          (Some y, Some m, Some d) \<Rightarrow>
            if 1 \<le> m \<and> m \<le> 12 \<and> 1 \<le> d \<and> d \<le> days_in_month y m
            then Some (days_from_civil y m d * day) else None
        | _ \<Rightarrow> None
      else None)"

definition iso_instant :: "string \<Rightarrow> (int \<times> int) option" where
  "iso_instant s =
     (if length s = 25 \<and> s ! 10 = CHR ''T'' \<and> s ! 13 = CHR '':'' \<and> s ! 16 = CHR '':''
         \<and> (s ! 19 = CHR ''+'' \<or> s ! 19 = CHR ''-'') \<and> s ! 22 = CHR '':'' then
        case (iso_date (take 10 s), digits 0 (take 2 (drop 11 s)), digits 0 (take 2 (drop 14 s)),
              digits 0 (take 2 (drop 17 s)), digits 0 (take 2 (drop 20 s)), digits 0 (drop 23 s)) of
          (Some d, Some h, Some mi, Some sec, Some oh, Some om) \<Rightarrow>
            if h < 24 \<and> mi < 60 \<and> sec < 60 \<and> oh < 24 \<and> om < 60 then
              let wall = d + (h * 3600 + mi * 60 + sec) * 1000000000;
                  off = (if s ! 19 = CHR ''-'' then - 1 else 1) * (oh * 3600 + om * 60) * 1000000000
              in Some (wall - off, off)
            else None
        | _ \<Rightarrow> None
      else None)"

definition one_offset :: "(int \<times> int) list \<Rightarrow> bool" where
  "one_offset ts \<longleftrightarrow> length (remdups (map snd ts)) \<le> 1"

definition iso_to_datetime :: converter where
  "iso_to_datetime col =
     (let ss = strs col; instants = List.map_filter iso_instant ss in
      case ss of
        [] \<Rightarrow> Inr (Naive iso_date)
      | s # rest \<Rightarrow>
          if iso_date s \<noteq> None then Inr (Naive iso_date)
          else if iso_instant s \<noteq> None then
            (if one_offset instants then Inr (Aware iso_instant)
             else Inl (ValueError ''Mixed timezones detected''))
          else if instants = [] then Inr (Naive iso_date)
          else if List.map_filter iso_date ss \<noteq> [] then
            Inl (ValueError ''Cannot mix tz-aware with tz-naive values'')
          else if one_offset instants then Inr (Aware iso_instant)
          else Inl (ValueError ''Mixed timezones detected''))"

section \<open>ICIMSConnector\<close>

text \<open>
  What an HTTP call of the connector gives: \<^verbatim>\<open>session.post\<close> or \<^verbatim>\<open>session.get\<close>,
  \<^verbatim>\<open>raise_for_status()\<close> and \<^verbatim>\<open>response.json()\<close> either raise an exception of the
  class \<^verbatim>\<open>RequestException\<close> (no connection, an HTTP error status, a body that is not
  JSON) or return the JSON value of the body. The server's answer is a parameter of each
  operation, so the request's URL, parameters and headers are not part of the state.
\<close>

datatype json =
  JsNull | JsBool bool | JsNum int | JsStr string | JsArr "json list" | JsObj "(string \<times> json) list"

datatype response = Raises string | Returns json

record connector =
  auth_token :: json
  printed :: "string list"

text \<open>Python's truth value of a decoded JSON value.\<close>

fun truthy :: "json \<Rightarrow> bool" where
  "truthy JsNull = False"
| "truthy (JsBool b) = b"
| "truthy (JsNum n) = (n \<noteq> 0)"
| "truthy (JsStr s) = (s \<noteq> [])"
| "truthy (JsArr xs) = (xs \<noteq> [])"
| "truthy (JsObj kvs) = (kvs \<noteq> [])"

text \<open>\<^verbatim>\<open>data.get(key, dflt)\<close>: only a dict has the method.\<close>

fun dict_get :: "json \<Rightarrow> string \<Rightarrow> json \<Rightarrow> error + json" where
  "dict_get (JsObj kvs) key dflt = Inr (case map_of kvs key of Some v \<Rightarrow> v | None \<Rightarrow> dflt)"
| "dict_get JsNull key dflt = Inl (AttributeError ''NoneType'')"
| "dict_get (JsBool b) key dflt = Inl (AttributeError ''bool'')"
| "dict_get (JsNum n) key dflt = Inl (AttributeError ''int'')"
| "dict_get (JsStr s) key dflt = Inl (AttributeError ''str'')"
| "dict_get (JsArr xs) key dflt = Inl (AttributeError ''list'')"

definition authenticate :: "response \<Rightarrow> connector \<Rightarrow> (error + bool) \<times> connector" where
  "authenticate resp self =
     (case resp of
        Raises e \<Rightarrow> (Inr False, self\<lparr>printed := printed self @ [''Authentication failed: '' @ e]\<rparr>)
      | Returns auth_response \<Rightarrow>
          (case dict_get auth_response ''access_token'' JsNull of
             Inl err \<Rightarrow> (Inl err, self)
           | Inr token \<Rightarrow> (Inr True, self\<lparr>auth_token := token\<rparr>)))"

text \<open>
  The common body of the three fetch methods, which differ in the URL and parameters of
  the request, in the key they read and in the message they print.
\<close>

definition fetch ::
  "string \<Rightarrow> string \<Rightarrow> response \<Rightarrow> response \<Rightarrow> connector \<Rightarrow> (error + json) \<times> connector" where
  "fetch key message auth_resp resp self =
     (case (if \<not> truthy (auth_token self) then authenticate auth_resp self else (Inr True, self)) of
        (Inl err, self1) \<Rightarrow> (Inl err, self1)
      | (Inr ok, self1) \<Rightarrow>
          if \<not> ok then (Inr (JsArr []), self1)
          else
            (case resp of
               Raises e \<Rightarrow> (Inr (JsArr []), self1\<lparr>printed := printed self1 @ [message @ e]\<rparr>)
             | Returns data \<Rightarrow>
                 (case dict_get data key (JsArr []) of
                    Inl err \<Rightarrow> (Inl err, self1)
                  | Inr v \<Rightarrow> (Inr v, self1))))"

definition get_jobs :: "response \<Rightarrow> response \<Rightarrow> connector \<Rightarrow> (error + json) \<times> connector" where
  "get_jobs = fetch ''jobs'' ''Error fetching jobs: ''"

definition get_candidates :: "response \<Rightarrow> response \<Rightarrow> connector \<Rightarrow> (error + json) \<times> connector" where
  "get_candidates = fetch ''candidates'' ''Error fetching candidates: ''"

definition get_workflow_steps :: "response \<Rightarrow> response \<Rightarrow> connector \<Rightarrow> (error + json) \<times> connector" where
  "get_workflow_steps = fetch ''steps'' ''Error fetching workflow steps: ''"

section \<open>Rows after preprocessing\<close>

text \<open>
  What \<^verbatim>\<open>_preprocess_data\<close> makes of one row when the conversions of the date columns
  have given \<open>p\<close>, \<open>c\<close> and \<open>a\<close>: used to state its effect on the rows.
\<close>

definition job_row :: "conv \<Rightarrow> conv \<Rightarrow> (string \<Rightarrow> cell) \<Rightarrow> string \<Rightarrow> cell" where
  "job_row p c r =
     (r(''dateposted'' := coerce p (r ''dateposted''),
        ''dateclosed'' := coerce c (r ''dateclosed''),
        ''days_to_fill'' :=
           days_between (coerce c (r ''dateclosed'')) (coerce p (r ''dateposted''))))"

definition candidate_row :: "conv \<Rightarrow> (string \<Rightarrow> cell) \<Rightarrow> string \<Rightarrow> cell" where
  "candidate_row a r =
     (r(''dateadded'' := coerce a (r ''dateadded''),
        ''week'' := period_of week_of (coerce a (r ''dateadded'')),
        ''month'' := period_of month_of (coerce a (r ''dateadded''))))"

section \<open>The derived fields, in the words of the specification\<close>

text \<open>
  \<open>field_column\<close>: the column of a key in the frame of the records, which is what the
  converter is given. \<open>instant\<close>: the time of a date that parsed. \<open>parsed\<close>: the
  date of a record under a key, as the conversion of that column reads it; it is missing
  when the conversion raises, when the record has no string under the key, and when the
  string does not parse.
\<close>

definition field_column :: "string \<Rightarrow> raw_record list \<Rightarrow> cell list" where
  "field_column key records = map (\<lambda>d. cell_of (map_of d key)) records"

fun instant :: "cell \<Rightarrow> int option" where
  "instant (Time t) = Some t"
| "instant (TimeTz t off) = Some t"
| "instant _ = None"

definition parsed :: "converter \<Rightarrow> string \<Rightarrow> raw_record list \<Rightarrow> raw_record \<Rightarrow> cell" where
  "parsed to_datetime key records d =
     (case to_datetime (field_column key records) of
        Inl e \<Rightarrow> NA
      | Inr cv \<Rightarrow> coerce cv (cell_of (map_of d key)))"

text \<open>
  \<open>spec_days_to_fill\<close>: days to fill is date_closed - date_posted in whole days, defined
  only when both dates of the job parse. \<open>spec_date_added\<close>: the parsed date_added of a
  candidate, when it parses. \<open>spec_week\<close>: the week bucket of that date.
\<close>

definition spec_days_to_fill :: "converter \<Rightarrow> raw_record list \<Rightarrow> raw_record \<Rightarrow> int option" where
  "spec_days_to_fill to_datetime jobs job =
     (case (instant (parsed to_datetime ''dateposted'' jobs job),
            instant (parsed to_datetime ''dateclosed'' jobs job)) of
        (Some p, Some c) \<Rightarrow> Some ((c - p) div day)
      | _ \<Rightarrow> None)"

definition spec_date_added :: "converter \<Rightarrow> raw_record list \<Rightarrow> raw_record \<Rightarrow> int option" where
  "spec_date_added to_datetime cands candidate =
     instant (parsed to_datetime ''dateadded'' cands candidate)"

definition spec_week :: "converter \<Rightarrow> raw_record list \<Rightarrow> raw_record \<Rightarrow> int option" where
  "spec_week to_datetime cands candidate =
     (case parsed to_datetime ''dateadded'' cands candidate of
        Time t \<Rightarrow> Some (week_of t)
      | TimeTz t off \<Rightarrow> Some (week_of (t + off))
      | _ \<Rightarrow> None)"

text \<open>
  \<open>spec_weekly_counts\<close>: the candidates grouped by week bucket, one pair of a week and
  the number of candidates added in it, in chronological order of the weeks.
\<close>

definition spec_weekly_counts :: "converter \<Rightarrow> raw_record list \<Rightarrow> (int \<times> nat) list" where
  "spec_weekly_counts to_datetime cands =
     map (\<lambda>k. (k, length (filter (\<lambda>c. spec_week to_datetime cands c = Some k) cands)))
         (sort (remdups (List.map_filter (spec_week to_datetime cands) cands)))"

text \<open>\<open>days_defined\<close>: the days to fill of a row of the jobs frame, when defined.\<close>

definition days_defined :: "(string \<Rightarrow> cell) \<Rightarrow> int option" where
  "days_defined r = (case r ''days_to_fill'' of Num n \<Rightarrow> Some n | _ \<Rightarrow> None)"

text \<open>
  \<open>spec_recruiter_row\<close>: the row of a recruiter in the full outer join of the job
  aggregates and the candidate counts. Its jobs are counted by their ids, its candidates
  by their records; its mean days to fill is the arithmetic mean of the days to fill that
  are defined among its jobs. A recruiter without jobs has the job count zero and the mean
  zero, which is also zero when none of its jobs has days to fill; a recruiter without
  candidates has the candidate count zero.
\<close>

definition spec_recruiter_row :: "frame \<Rightarrow> frame \<Rightarrow> string \<Rightarrow> recruiter_row" where
  "spec_recruiter_row jobs cands k =
     \<lparr>Recruiter = k,
      Recruiter_Jobs =
        of_nat (length (filter (\<lambda>r. r ''recruiter'' = Str k \<and> r ''id'' \<noteq> NA) (rows jobs))),
      Recruiter_Days =
        (let ds = List.map_filter days_defined (filter (\<lambda>r. r ''recruiter'' = Str k) (rows jobs))
         in if ds = [] then 0 else of_int (sum_list ds) / of_nat (length ds)),
      Total_Candidates =
        of_nat (length (filter (\<lambda>r. r ''recruiter'' = Str k) (rows cands)))\<rparr>"

section \<open>Frames and preprocessing\<close>

lemma set_uniq [simp]: "set (uniq xs) = set xs"
  by (simp add: uniq_def)

lemma columns_DataFrame: "set (columns (DataFrame data)) = (\<Union>d\<in>set data. fst ` set d)"
  by (auto simp: DataFrame_def)

lemma rows_DataFrame: "rows (DataFrame data) = map (\<lambda>d k. cell_of (map_of d k)) data"
  by (simp add: DataFrame_def)

lemma column_DataFrame: "map (\<lambda>r. r key) (rows (DataFrame data)) = field_column key data"
  by (simp add: rows_DataFrame field_column_def o_def)

lemma map_zip_same: "map (\<lambda>(r, v). g r v) (zip rs (map f rs)) = map (\<lambda>r. g r (f r)) rs"
  by (induction rs) auto

lemma zip_map_map_same: "zip (map f rs) (map g rs) = map (\<lambda>r. (f r, g r)) rs"
  by (induction rs) auto

lemma convert_column_Inr:
  assumes "convert_column td col df = Inr df1"
  shows "if col \<in> set (columns df)
         then \<exists>cv. td (map (\<lambda>r. r col) (rows df)) = Inr cv
                \<and> rows df1 = map (\<lambda>r. r(col := coerce cv (r col))) (rows df)
                \<and> columns df1 = columns df
         else df1 = df"
  using assms
  by (auto simp: convert_column_def setitem_def map_zip_same o_def split: sum.splits if_splits)

lemma convert_column_ok:
  assumes "col \<in> set (columns df)" "td (map (\<lambda>r. r col) (rows df)) = Inr cv"
  shows "convert_column td col df
           = Inr \<lparr>columns = columns df, rows = map (\<lambda>r. r(col := coerce cv (r col))) (rows df)\<rparr>"
  using assms by (simp add: convert_column_def setitem_def map_zip_same o_def)

lemma convert_dates_jobs:
  assumes "''dateposted'' \<in> set (columns df)" "''dateclosed'' \<in> set (columns df)"
    and "td (map (\<lambda>r. r ''dateposted'') (rows df)) = Inr p"
    and "td (map (\<lambda>r. r ''dateclosed'') (rows df)) = Inr c"
  shows "convert_dates td [''dateposted'', ''dateclosed''] df
           = Inr \<lparr>columns = columns df,
                  rows = map (\<lambda>r. r(''dateposted'' := coerce p (r ''dateposted''),
                                    ''dateclosed'' := coerce c (r ''dateclosed''))) (rows df)\<rparr>"
proof -
  let ?d1 = "\<lparr>columns = columns df,
              rows = map (\<lambda>r. r(''dateposted'' := coerce p (r ''dateposted''))) (rows df)\<rparr>"
  have 1: "convert_column td ''dateposted'' df = Inr ?d1"
    using assms(1,3) by (rule convert_column_ok)
  have "convert_column td ''dateclosed'' ?d1
          = Inr \<lparr>columns = columns ?d1,
                 rows = map (\<lambda>r. r(''dateclosed'' := coerce c (r ''dateclosed''))) (rows ?d1)\<rparr>"
    by (rule convert_column_ok) (use assms(2,4) in \<open>simp_all add: o_def\<close>)
  then show ?thesis by (simp add: 1 o_def)
qed

lemma preprocess_jobs_ok:
  assumes "\<not> is_empty df" "''dateposted'' \<in> set (columns df)" "''dateclosed'' \<in> set (columns df)"
    and "td (map (\<lambda>r. r ''dateposted'') (rows df)) = Inr p"
    and "td (map (\<lambda>r. r ''dateclosed'') (rows df)) = Inr c"
    and "aware (map (\<lambda>r. coerce c (r ''dateclosed'')) (rows df))
           = aware (map (\<lambda>r. coerce p (r ''dateposted'')) (rows df))"
  shows "\<exists>df'. preprocess_jobs td df = Inr df' \<and> rows df' = map (job_row p c) (rows df)
           \<and> set (columns df') = insert ''days_to_fill'' (set (columns df))"
  using assms(1,2,3,6)
  by (auto simp: preprocess_jobs_def convert_dates_jobs [OF assms(2-5)] getitem_def setitem_def
        sub_days_def map_zip_same zip_map_map_same job_row_def o_def simp del: convert_dates.simps)

lemma preprocess_jobs_mixed:
  assumes "\<not> is_empty df" "''dateposted'' \<in> set (columns df)" "''dateclosed'' \<in> set (columns df)"
    and "td (map (\<lambda>r. r ''dateposted'') (rows df)) = Inr p"
    and "td (map (\<lambda>r. r ''dateclosed'') (rows df)) = Inr c"
    and "aware (map (\<lambda>r. coerce c (r ''dateclosed'')) (rows df))
           \<noteq> aware (map (\<lambda>r. coerce p (r ''dateposted'')) (rows df))"
  shows "preprocess_jobs td df
           = Inl (TypeError ''Cannot subtract tz-naive and tz-aware datetime-like objects'')"
  using assms(1,2,3,6)
  by (auto simp: preprocess_jobs_def convert_dates_jobs [OF assms(2-5)] getitem_def setitem_def
        sub_days_def o_def simp del: convert_dates.simps)

lemma preprocess_jobs_Inr:
  assumes "preprocess_jobs td df = Inr df'" "\<not> is_empty df"
  shows "\<exists>p c. td (map (\<lambda>r. r ''dateposted'') (rows df)) = Inr p
           \<and> td (map (\<lambda>r. r ''dateclosed'') (rows df)) = Inr c
           \<and> ''dateposted'' \<in> set (columns df) \<and> ''dateclosed'' \<in> set (columns df)
           \<and> rows df' = map (job_row p c) (rows df)
           \<and> set (columns df') = insert ''days_to_fill'' (set (columns df))
           \<and> aware (map (\<lambda>r. coerce c (r ''dateclosed'')) (rows df))
                = aware (map (\<lambda>r. coerce p (r ''dateposted'')) (rows df))"
proof -
  from assms obtain d2 where d2: "convert_dates td [''dateposted'', ''dateclosed''] df = Inr d2"
    by (auto simp: preprocess_jobs_def split: sum.splits)
  then obtain d1 where d1: "convert_column td ''dateposted'' df = Inr d1"
    and d12: "convert_column td ''dateclosed'' d1 = Inr d2"
    by (auto split: sum.splits)
  have "''dateclosed'' \<in> set (columns d2)" "''dateposted'' \<in> set (columns d2)"
    using assms d2
    by (auto simp: preprocess_jobs_def getitem_def simp del: convert_dates.simps
          split: sum.splits if_splits)
  moreover have "columns d2 = columns df"
    using convert_column_Inr [OF d1] convert_column_Inr [OF d12] by (auto split: if_splits)
  ultimately have cols: "''dateposted'' \<in> set (columns df)" "''dateclosed'' \<in> set (columns df)"
    by simp_all
  from convert_column_Inr [OF d1] cols obtain p where
    p: "td (map (\<lambda>r. r ''dateposted'') (rows df)) = Inr p"
    and r1: "rows d1 = map (\<lambda>r. r(''dateposted'' := coerce p (r ''dateposted''))) (rows df)"
    and c1: "columns d1 = columns df" by auto
  from convert_column_Inr [OF d12] cols c1 obtain c where
    c: "td (map (\<lambda>r. r ''dateclosed'') (rows d1)) = Inr c" by auto
  then have c': "td (map (\<lambda>r. r ''dateclosed'') (rows df)) = Inr c"
    by (simp add: r1 o_def)
  have aw: "aware (map (\<lambda>r. coerce c (r ''dateclosed'')) (rows df))
              = aware (map (\<lambda>r. coerce p (r ''dateposted'')) (rows df))"
  proof (rule ccontr)
    assume "\<not> ?thesis"
    from preprocess_jobs_mixed [OF assms(2) cols p c' this] assms(1) show False by simp
  qed
  from preprocess_jobs_ok [OF assms(2) cols p c' aw] assms(1) p c' cols aw show ?thesis by auto
qed

lemma preprocess_candidates_ok:
  assumes "\<not> is_empty df" "''dateadded'' \<in> set (columns df)"
    and "td (map (\<lambda>r. r ''dateadded'') (rows df)) = Inr a"
  shows "\<exists>df'. preprocess_candidates td df = Inr df' \<and> rows df' = map (candidate_row a) (rows df)
           \<and> set (columns df') = insert ''week'' (insert ''month'' (set (columns df)))"
proof -
  have cd: "convert_dates td [''dateadded''] df
         = Inr \<lparr>columns = columns df,
                rows = map (\<lambda>r. r(''dateadded'' := coerce a (r ''dateadded''))) (rows df)\<rparr>"
    using convert_column_ok [of "''dateadded''" df td a] assms(2,3) by simp
  show ?thesis
    using assms(1,2)
    by (auto simp: preprocess_candidates_def cd getitem_def setitem_def to_period_def map_zip_same
          zip_map_map_same candidate_row_def o_def Let_def simp del: convert_dates.simps)
qed

lemma preprocess_candidates_Inr:
  assumes "preprocess_candidates td df = Inr df'" "\<not> is_empty df"
  shows "\<exists>a. td (map (\<lambda>r. r ''dateadded'') (rows df)) = Inr a
           \<and> ''dateadded'' \<in> set (columns df)
           \<and> rows df' = map (candidate_row a) (rows df)
           \<and> set (columns df') = insert ''week'' (insert ''month'' (set (columns df)))"
proof -
  from assms obtain d1 where d1: "convert_column td ''dateadded'' df = Inr d1"
    by (auto simp: preprocess_candidates_def split: sum.splits)
  have "''dateadded'' \<in> set (columns d1)"
    using assms d1 by (auto simp: preprocess_candidates_def getitem_def split: sum.splits if_splits)
  with convert_column_Inr [OF d1] have col: "''dateadded'' \<in> set (columns df)"
    by (auto split: if_splits)
  with convert_column_Inr [OF d1] obtain a where
    a: "td (map (\<lambda>r. r ''dateadded'') (rows df)) = Inr a" by auto
  from preprocess_candidates_ok [of df td a] assms a col show ?thesis by auto
qed

lemma preprocess_empty:
  "is_empty df \<Longrightarrow> preprocess_jobs td df = Inr df"
  "is_empty df \<Longrightarrow> preprocess_candidates td df = Inr df"
  by (simp_all add: preprocess_jobs_def preprocess_candidates_def)

lemma coerce_cases:
  "coerce (Naive f) x = NA \<or> (\<exists>t. coerce (Naive f) x = Time t)"
  "coerce (Aware g) x = NA \<or> (\<exists>t off. coerce (Aware g) x = TimeTz t off)"
  by (auto simp: coerce_def split: cell.splits option.splits)

lemma naive_not_aware: "\<not> aware (map (coerce (Naive f)) xs)"
proof (induction xs)
  case Nil
  show ?case by (simp add: aware_def)
next
  case (Cons x xs)
  with coerce_cases(1) [of f x] show ?case by (auto simp: aware_def)
qed

lemma aware_member: "x \<in> set xs \<Longrightarrow> coerce cv x = TimeTz t off \<Longrightarrow> aware (map (coerce cv) xs)"
  by (induction xs) (auto simp: aware_def)

lemma days_between_spec:
  assumes "aware (map (coerce c) xs) = aware (map (coerce p) ys)"
    and "x \<in> set xs" "y \<in> set ys"
  shows "days_between (coerce c x) (coerce p y)
           = (case (instant (coerce p y), instant (coerce c x)) of
                (Some b, Some a) \<Rightarrow> Num ((a - b) div day)
              | _ \<Rightarrow> NA)"
proof (cases c)
  case cn: (Naive f)
  show ?thesis
  proof (cases p)
    case (Naive g)
    with cn coerce_cases(1) [of f x] coerce_cases(1) [of g y] show ?thesis by auto
  next
    case pa: (Aware g)
    have "coerce p y = NA"
    proof (rule ccontr)
      assume "coerce p y \<noteq> NA"
      with pa coerce_cases(2) [of g y] obtain t off where "coerce p y = TimeTz t off" by auto
      with assms(3) have "aware (map (coerce p) ys)" by (rule aware_member)
      with assms(1) cn naive_not_aware [of f xs] show False by simp
    qed
    with cn coerce_cases(1) [of f x] show ?thesis by auto
  qed
next
  case ca: (Aware f)
  show ?thesis
  proof (cases p)
    case (Aware g)
    with ca coerce_cases(2) [of f x] coerce_cases(2) [of g y] show ?thesis by auto
  next
    case pn: (Naive g)
    have "coerce c x = NA"
    proof (rule ccontr)
      assume "coerce c x \<noteq> NA"
      with ca coerce_cases(2) [of f x] obtain t off where "coerce c x = TimeTz t off" by auto
      with assms(2) have "aware (map (coerce c) xs)" by (rule aware_member)
      with assms(1) pn naive_not_aware [of g ys] show False by simp
    qed
    with pn coerce_cases(1) [of g y] show ?thesis by auto
  qed
qed

lemma parsed_Inr:
  "td (field_column key records) = Inr cv \<Longrightarrow>
     parsed td key records = (\<lambda>d. coerce cv (cell_of (map_of d key)))"
  by (rule ext) (simp add: parsed_def)

lemma parsed_instant:
  assumes "instant (parsed td key records d) = Some t"
  shows "\<exists>cv. td (field_column key records) = Inr cv \<and> key \<in> fst ` set d"
proof -
  from assms obtain cv where cv: "td (field_column key records) = Inr cv"
    by (cases "td (field_column key records)") (simp_all add: parsed_def)
  with assms have "instant (coerce cv (cell_of (map_of d key))) = Some t"
    by (simp add: parsed_def)
  then have "cell_of (map_of d key) \<noteq> NA"
    by (auto simp: coerce_def split: conv.splits)
  then have "map_of d key \<noteq> None" by (auto simp: cell_of_def split: option.splits)
  then have "key \<in> fst ` set d" by (simp add: map_of_eq_None_iff)
  with cv show ?thesis by blast
qed

section \<open>Summary metrics of empty input\<close>

text \<open>
  C1 (as the code has it). When both frames are empty, \<^verbatim>\<open>calculate_metrics\<close> returns
  the empty dictionary and raises nothing: neither guarded block runs, so no key is set.
  The zeros of the page come from its reads \<^verbatim>\<open>metrics.get(key, 0)\<close> of total_jobs,
  open_jobs, total_candidates and avg_time_to_fill.
\<close>

theorem calculate_metrics_empty:
  assumes "is_empty (jobs_df self)" and "is_empty (candidates_df self)"
  shows "calculate_metrics now self = Inr Map.empty
         \<and> get Map.empty ''total_jobs'' (MInt 0) = MInt 0
         \<and> get Map.empty ''open_jobs'' (MInt 0) = MInt 0
         \<and> get Map.empty ''total_candidates'' (MInt 0) = MInt 0
         \<and> get Map.empty ''avg_time_to_fill'' (MInt 0) = MInt 0"
  using assms by (simp add: calculate_metrics_def get_def)

theorem calculate_metrics_empty_witness:
  "is_empty (jobs_df \<lparr>jobs_df = DataFrame [], candidates_df = DataFrame []\<rparr>)
   \<and> is_empty (candidates_df \<lparr>jobs_df = DataFrame [], candidates_df = DataFrame []\<rparr>)
   \<and> calculate_metrics 0 \<lparr>jobs_df = DataFrame [], candidates_df = DataFrame []\<rparr> = Inr Map.empty"
  using calculate_metrics_empty [of "\<lparr>jobs_df = DataFrame [], candidates_df = DataFrame []\<rparr>" 0]
  by (simp add: is_empty_def DataFrame_def)

text \<open>
  C1 as stated fails on empty lists of jobs and candidates: the dictionary returned holds
  no zero counts and no top_source \<^verbatim>\<open>'N/A'\<close>.
\<close>

theorem calculate_metrics_empty_counterexample:
  "\<not> (case calculate_metrics 0 \<lparr>jobs_df = DataFrame [], candidates_df = DataFrame []\<rparr> of
        Inl e \<Rightarrow> False
      | Inr metrics \<Rightarrow>
          metrics ''total_jobs'' = Some (MInt 0) \<and> metrics ''open_jobs'' = Some (MInt 0)
          \<and> metrics ''closed_jobs'' = Some (MInt 0) \<and> metrics ''total_candidates'' = Some (MInt 0)
          \<and> metrics ''avg_time_to_fill'' = Some (MInt 0) \<and> metrics ''top_source'' = Some (MStr ''N/A''))"
  by (simp add: calculate_metrics_def is_empty_def DataFrame_def)

section \<open>Dates that are missing\<close>

text \<open>
  C4 (the failing input). A job list in which no record has the key
  \<^verbatim>\<open>dateclosed\<close>: the conversion loop skips the absent column, and the subtraction
  that follows reads it and raises KeyError.
\<close>

theorem preprocess_data_without_dateclosed:
  "preprocess_data iso_to_datetime
     \<lparr>jobs_df = DataFrame [[(''id'', JStr ''1''), (''title'', JStr ''Engineer''), (''status'', JStr ''open''),
                            (''dateposted'', JStr ''2024-01-01''), (''recruiter'', JStr ''A'')]],
      candidates_df = DataFrame []\<rparr>
   = Inl (KeyError [''dateclosed''])"
  by (simp add: preprocess_data_def preprocess_jobs_def convert_column_def getitem_def setitem_def
        DataFrame_def is_empty_def uniq_def cell_of_def iso_to_datetime_def Let_def
        iso_date_def days_from_civil_def days_in_month_def)

section \<open>Days to fill\<close>

lemma iso_dates:
  "iso_date ''2024-01-01'' = Some (19723 * day)"
  "iso_date ''2024-01-02'' = Some (19724 * day)"
  "iso_date ''2024-01-03'' = Some (19725 * day)"
  "iso_date ''2024-01-05'' = Some (19727 * day)"
  "iso_date ''2024-01-07'' = Some (19729 * day)"
  "iso_date ''2024-01-08'' = Some (19730 * day)"
  "iso_date ''2024-01-09'' = Some (19731 * day)"
  "iso_date ''2024-01-11'' = Some (19733 * day)"
  "iso_date ''2024-03-01'' = Some (19783 * day)"
  "iso_date ''bad'' = None"
  by (simp_all add: iso_date_def days_from_civil_def days_in_month_def Let_def)

lemma iso_instants:
  "iso_instant ''2024-01-01T00:00:00+00:00'' = Some (19723 * day, 0)"
  "iso_instant ''2024-01-02T00:00:00+05:30'' = Some (19724 * day - 19800000000000, 19800000000000)"
  "iso_date ''2024-01-01T00:00:00+00:00'' = None"
  "iso_date ''2024-01-02T00:00:00+05:30'' = None"
  "iso_instant ''2024-01-11'' = None"
  by (simp_all add: iso_instant_def iso_date_def days_from_civil_def days_in_month_def Let_def
        day_def)

lemma iso_to_datetime_dates:
  "iso_date s \<noteq> None \<Longrightarrow> iso_to_datetime (Str s # col) = Inr (Naive iso_date)"
  "iso_to_datetime (NA # col) = iso_to_datetime col"
  "iso_to_datetime [] = Inr (Naive iso_date)"
  by (simp_all add: iso_to_datetime_def Let_def)

lemma iso_to_datetime_instants:
  "iso_date s = None \<Longrightarrow> iso_instant s \<noteq> None \<Longrightarrow>
     iso_to_datetime (Str s # col)
       = (if one_offset (List.map_filter iso_instant (s # strs col)) then Inr (Aware iso_instant)
          else Inl (ValueError ''Mixed timezones detected''))"
  by (simp add: iso_to_datetime_def Let_def)

text \<open>
  C6 (as the code has it). In a job list whose converted \<^verbatim>\<open>dateposted\<close> and
  \<^verbatim>\<open>dateclosed\<close> columns are of one kind, both timezone-naive or both
  timezone-aware, take a job whose two dates both parse in the conversion of their
  columns. Then preprocessing returns, and the job's \<^verbatim>\<open>days_to_fill\<close> is the
  difference of the two times in whole days, rounded towards minus infinity.
\<close>

theorem days_to_fill_is_day_difference:
  assumes "i < length jobs"
    and "instant (parsed td ''dateposted'' jobs (jobs ! i)) = Some p"
    and "instant (parsed td ''dateclosed'' jobs (jobs ! i)) = Some c"
    and "aware (map (parsed td ''dateclosed'' jobs) jobs)
           = aware (map (parsed td ''dateposted'' jobs) jobs)"
  shows "\<exists>df. preprocess_jobs td (DataFrame jobs) = Inr df \<and> length (rows df) = length jobs
           \<and> (rows df ! i) ''days_to_fill'' = Num ((c - p) div day)"
proof -
  let ?df = "DataFrame jobs"
  let ?P = "field_column ''dateposted'' jobs" and ?C = "field_column ''dateclosed'' jobs"
  have mem: "jobs ! i \<in> set jobs" using assms(1) by simp
  from parsed_instant [OF assms(2)] obtain cp where
    cp: "td ?P = Inr cp" and kp: "''dateposted'' \<in> fst ` set (jobs ! i)" by blast
  from parsed_instant [OF assms(3)] obtain cc where
    cc: "td ?C = Inr cc" and kc: "''dateclosed'' \<in> fst ` set (jobs ! i)" by blast
  from mem kp have "''dateposted'' \<in> (\<Union>d\<in>set jobs. fst ` set d)" by (rule UN_I)
  moreover from mem kc have "''dateclosed'' \<in> (\<Union>d\<in>set jobs. fst ` set d)" by (rule UN_I)
  ultimately have cols: "''dateposted'' \<in> set (columns ?df)" "''dateclosed'' \<in> set (columns ?df)"
    by (simp_all only: columns_DataFrame)
  then have ne: "\<not> is_empty ?df"
    using assms(1) by (auto simp: is_empty_def rows_DataFrame)
  have pp: "parsed td ''dateposted'' jobs = (\<lambda>d. coerce cp (cell_of (map_of d ''dateposted'')))"
    using cp by (rule parsed_Inr)
  have pc: "parsed td ''dateclosed'' jobs = (\<lambda>d. coerce cc (cell_of (map_of d ''dateclosed'')))"
    using cc by (rule parsed_Inr)
  have aw: "aware (map (coerce cc) ?C) = aware (map (coerce cp) ?P)"
    using assms(4) by (simp add: pp pc field_column_def o_def)
  then have aw':
    "aware (map (\<lambda>r. coerce cc (r ''dateclosed'')) (rows ?df))
       = aware (map (\<lambda>r. coerce cp (r ''dateposted'')) (rows ?df))"
    by (simp add: rows_DataFrame field_column_def o_def)
  from preprocess_jobs_ok [of ?df td cp cc] ne cols cp cc aw' obtain df where
    df: "preprocess_jobs td ?df = Inr df" "rows df = map (job_row cp cc) (rows ?df)"
    by (auto simp: column_DataFrame)
  have xc: "cell_of (map_of (jobs ! i) ''dateclosed'') \<in> set ?C"
    and xp: "cell_of (map_of (jobs ! i) ''dateposted'') \<in> set ?P"
    using mem by (simp_all add: field_column_def)
  have "(rows df ! i) ''days_to_fill''
          = days_between (coerce cc (cell_of (map_of (jobs ! i) ''dateclosed'')))
                         (coerce cp (cell_of (map_of (jobs ! i) ''dateposted'')))"
    using assms(1) by (simp add: df(2) rows_DataFrame job_row_def)
  also have "\<dots> = Num ((c - p) div day)"
    using assms(2,3) by (simp add: days_between_spec [OF aw xc xp] pp pc)
  finally show ?thesis using df by (simp add: rows_DataFrame)
qed

text \<open>
  The job list that holds the one job posted on 2024-01-01 and closed on 2024-01-11: its
  \<^verbatim>\<open>days_to_fill\<close> is 10.
\<close>

theorem days_to_fill_is_day_difference_witness:
  "\<exists>df. preprocess_jobs iso_to_datetime
          (DataFrame [[(''id'', JStr ''1''), (''dateposted'', JStr ''2024-01-01''),
                       (''dateclosed'', JStr ''2024-01-11'')]]) = Inr df
        \<and> (rows df ! 0) ''days_to_fill'' = Num 10"
proof -
  let ?J = "[[(''id'', JStr ''1''), (''dateposted'', JStr ''2024-01-01''),
              (''dateclosed'', JStr ''2024-01-11'')]]"
  have p: "parsed iso_to_datetime ''dateposted'' ?J (?J ! 0) = Time (19723 * day)"
    by (simp add: parsed_def field_column_def cell_of_def iso_to_datetime_dates iso_dates coerce_def)
  have c: "parsed iso_to_datetime ''dateclosed'' ?J (?J ! 0) = Time (19733 * day)"
    by (simp add: parsed_def field_column_def cell_of_def iso_to_datetime_dates iso_dates coerce_def)
  have a: "aware (map (parsed iso_to_datetime ''dateclosed'' ?J) ?J)
             = aware (map (parsed iso_to_datetime ''dateposted'' ?J) ?J)"
    by (simp add: parsed_def field_column_def cell_of_def iso_to_datetime_dates iso_dates coerce_def
          aware_def)
  have d: "(19733 * day - 19723 * day) div day = 10" by (simp add: day_def)
  show ?thesis
    using days_to_fill_is_day_difference [of 0 ?J iso_to_datetime "19723 * day" "19733 * day"] p c a d
    by auto
qed

text \<open>
  C6 as stated fails for a job whose date_posted carries an offset from UTC and whose
  date_closed is a plain date. Both dates parse, the first to a timezone-aware time and
  the second to a timezone-naive one, and the subtraction of the two columns raises
  TypeError: the job has no \<^verbatim>\<open>days_to_fill\<close>.
\<close>

theorem days_to_fill_mixed_timezones_counterexample:
  "instant (parsed iso_to_datetime ''dateposted''
      [[(''id'', JStr ''1''), (''dateposted'', JStr ''2024-01-01T00:00:00+00:00''),
        (''dateclosed'', JStr ''2024-01-11'')]]
      [(''id'', JStr ''1''), (''dateposted'', JStr ''2024-01-01T00:00:00+00:00''),
       (''dateclosed'', JStr ''2024-01-11'')]) = Some (19723 * day)
   \<and> instant (parsed iso_to_datetime ''dateclosed''
      [[(''id'', JStr ''1''), (''dateposted'', JStr ''2024-01-01T00:00:00+00:00''),
        (''dateclosed'', JStr ''2024-01-11'')]]
      [(''id'', JStr ''1''), (''dateposted'', JStr ''2024-01-01T00:00:00+00:00''),
       (''dateclosed'', JStr ''2024-01-11'')]) = Some (19733 * day)
   \<and> preprocess_jobs iso_to_datetime
        (DataFrame [[(''id'', JStr ''1''), (''dateposted'', JStr ''2024-01-01T00:00:00+00:00''),
                     (''dateclosed'', JStr ''2024-01-11'')]])
      = Inl (TypeError ''Cannot subtract tz-naive and tz-aware datetime-like objects'')"
proof -
  let ?j = "[(''id'', JStr ''1''), (''dateposted'', JStr ''2024-01-01T00:00:00+00:00''),
             (''dateclosed'', JStr ''2024-01-11'')]"
  have tp: "iso_to_datetime [Str ''2024-01-01T00:00:00+00:00''] = Inr (Aware iso_instant)"
    by (simp add: iso_to_datetime_instants iso_instants one_offset_def map_filter_simps)
  have tc: "iso_to_datetime [Str ''2024-01-11''] = Inr (Naive iso_date)"
    by (simp add: iso_to_datetime_dates iso_dates)
  have p: "instant (parsed iso_to_datetime ''dateposted'' [?j] ?j) = Some (19723 * day)"
    by (simp add: parsed_def field_column_def cell_of_def tp iso_instants coerce_def)
  have c: "instant (parsed iso_to_datetime ''dateclosed'' [?j] ?j) = Some (19733 * day)"
    by (simp add: parsed_def field_column_def cell_of_def tc iso_dates coerce_def)
  have cols: "columns (DataFrame [?j]) = [''id'', ''dateposted'', ''dateclosed'']"
    by (simp add: DataFrame_def uniq_def)
  have r: "preprocess_jobs iso_to_datetime (DataFrame [?j])
             = Inl (TypeError ''Cannot subtract tz-naive and tz-aware datetime-like objects'')"
    by (rule preprocess_jobs_mixed [where p = "Aware iso_instant" and c = "Naive iso_date"])
       (simp_all add: cols is_empty_def rows_DataFrame cell_of_def tp tc coerce_def iso_instants
          iso_dates aware_def)
  from p c r show ?thesis by simp
qed

section \<open>Failures of the connector\<close>

lemma fetch_auth_failure:
  "\<not> truthy (auth_token c) \<Longrightarrow>
     fetch key msg (Raises e) r c
       = (Inr (JsArr []), c\<lparr>printed := printed c @ [''Authentication failed: '' @ e]\<rparr>)"
  by (simp add: fetch_def authenticate_def)

lemma fetch_request_failure:
  "truthy (auth_token c) \<Longrightarrow>
     fetch key msg a (Raises e) c = (Inr (JsArr []), c\<lparr>printed := printed c @ [msg @ e]\<rparr>)"
  by (simp add: fetch_def)

lemma fetch_request_failure_after_auth:
  "\<not> truthy (auth_token c) \<Longrightarrow>
     fetch key msg (Returns (JsObj kvs)) (Raises e) c
       = (Inr (JsArr []),
          c\<lparr>auth_token := (case map_of kvs ''access_token'' of Some v \<Rightarrow> v | None \<Rightarrow> JsNull),
            printed := printed c @ [msg @ e]\<rparr>)"
  by (simp add: fetch_def authenticate_def)

text \<open>
  C8 (as the code has it). For each of the three fetch methods, a failure that the HTTP
  library raises as a \<^verbatim>\<open>RequestException\<close> gives the empty list and one printed
  message: in the authentication call when no token is held, and in the fetch call, with
  a token held or just obtained.
\<close>

theorem fetch_degrades_on_request_exception:
  assumes "(f, msg) = (get_jobs, ''Error fetching jobs: '')
         \<or> (f, msg) = (get_candidates, ''Error fetching candidates: '')
         \<or> (f, msg) = (get_workflow_steps, ''Error fetching workflow steps: '')"
  shows "(\<not> truthy (auth_token c) \<longrightarrow>
            f (Raises e) r c
              = (Inr (JsArr []), c\<lparr>printed := printed c @ [''Authentication failed: '' @ e]\<rparr>))
       \<and> (truthy (auth_token c) \<longrightarrow>
            f a (Raises e) c = (Inr (JsArr []), c\<lparr>printed := printed c @ [msg @ e]\<rparr>))
       \<and> (\<not> truthy (auth_token c) \<longrightarrow>
            f (Returns (JsObj kvs)) (Raises e) c
               = (Inr (JsArr []),
                  c\<lparr>auth_token := (case map_of kvs ''access_token'' of Some v \<Rightarrow> v | None \<Rightarrow> JsNull),
                    printed := printed c @ [msg @ e]\<rparr>))"
proof -
  from assms obtain key where f: "f = fetch key msg"
    by (auto simp: get_jobs_def get_candidates_def get_workflow_steps_def)
  show ?thesis
    unfolding f
    by (simp add: fetch_auth_failure fetch_request_failure fetch_request_failure_after_auth)
qed

theorem fetch_degrades_on_request_exception_witness:
  "get_jobs (Raises ''timeout'') (Returns (JsObj [])) \<lparr>auth_token = JsNull, printed = []\<rparr>
     = (Inr (JsArr []), \<lparr>auth_token = JsNull, printed = [''Authentication failed: timeout'']\<rparr>)
   \<and> get_jobs (Returns (JsObj [(''access_token'', JsStr ''t'')])) (Raises ''timeout'')
        \<lparr>auth_token = JsNull, printed = []\<rparr>
     = (Inr (JsArr []), \<lparr>auth_token = JsStr ''t'', printed = [''Error fetching jobs: timeout'']\<rparr>)"
  using fetch_degrades_on_request_exception
    [of get_jobs "''Error fetching jobs: ''" "\<lparr>auth_token = JsNull, printed = []\<rparr>" "''timeout''" "Returns (JsObj [])"
        "Returns (JsObj [(''access_token'', JsStr ''t'')])" "[(''access_token'', JsStr ''t'')]"]
  by (simp add: get_jobs_def fetch_def authenticate_def)

text \<open>
  C8 as stated fails for a malformed response whose body is JSON but not an object: with
  the body \<^verbatim>\<open>[]\<close>, \<^verbatim>\<open>data.get\<close> raises AttributeError, which the handler for
  \<^verbatim>\<open>RequestException\<close> does not catch, and nothing is printed.
\<close>

theorem get_jobs_malformed_response_counterexample:
  "fst (get_jobs (Returns (JsObj [(''access_token'', JsStr ''t'')])) (Returns (JsArr []))
          \<lparr>auth_token = JsNull, printed = []\<rparr>) = Inl (AttributeError ''list'')
   \<and> printed (snd (get_jobs (Returns (JsObj [(''access_token'', JsStr ''t'')])) (Returns (JsArr []))
          \<lparr>auth_token = JsNull, printed = []\<rparr>)) = []"
  by (simp add: get_jobs_def fetch_def authenticate_def)

section \<open>The summary metrics\<close>

lemma not_empty_rows:
  assumes "rows df' = map f (rows df)" "k \<in> set (columns df')"
    and "\<not> is_empty df"
  shows "\<not> is_empty df'"
proof -
  from assms(2) have "columns df' \<noteq> []" by auto
  moreover from assms(1,3) have "rows df' \<noteq> []" by (simp add: is_empty_def)
  ultimately show ?thesis by (simp add: is_empty_def)
qed

lemma preprocess_data_jobs:
  assumes "preprocess_data td \<lparr>jobs_df = DataFrame jobs, candidates_df = C\<rparr> = Inr d"
  shows "if is_empty (DataFrame jobs) then jobs_df d = DataFrame jobs
         else \<exists>p c. td (field_column ''dateposted'' jobs) = Inr p
                \<and> td (field_column ''dateclosed'' jobs) = Inr c
                \<and> rows (jobs_df d) = map (job_row p c) (rows (DataFrame jobs))
                \<and> set (columns (jobs_df d)) = insert ''days_to_fill'' (set (columns (DataFrame jobs)))
                \<and> \<not> is_empty (jobs_df d)
                \<and> aware (map (coerce c) (field_column ''dateclosed'' jobs))
                     = aware (map (coerce p) (field_column ''dateposted'' jobs))"
proof (cases "is_empty (DataFrame jobs)")
  case True
  then show ?thesis using assms
    by (simp add: preprocess_data_def preprocess_empty split: sum.splits) auto
next
  case False
  from assms obtain j where j: "preprocess_jobs td (DataFrame jobs) = Inr j" "jobs_df d = j"
    by (auto simp: preprocess_data_def split: sum.splits)
  from preprocess_jobs_Inr [OF j(1) False] obtain p c where
    p: "td (field_column ''dateposted'' jobs) = Inr p"
    and c: "td (field_column ''dateclosed'' jobs) = Inr c"
    and r: "rows j = map (job_row p c) (rows (DataFrame jobs))"
    and cs: "set (columns j) = insert ''days_to_fill'' (set (columns (DataFrame jobs)))"
    and aw: "aware (map (\<lambda>r. coerce c (r ''dateclosed'')) (rows (DataFrame jobs)))
               = aware (map (\<lambda>r. coerce p (r ''dateposted'')) (rows (DataFrame jobs)))"
    by (auto simp: column_DataFrame)
  from cs have "''days_to_fill'' \<in> set (columns j)" by simp
  with r have ne: "\<not> is_empty j" using False by (rule not_empty_rows)
  from aw have "aware (map (coerce c) (field_column ''dateclosed'' jobs))
                  = aware (map (coerce p) (field_column ''dateposted'' jobs))"
    by (simp add: rows_DataFrame field_column_def o_def)
  with p c r cs ne False j(2) show ?thesis by auto
qed

lemma preprocess_data_candidates:
  assumes "preprocess_data td \<lparr>jobs_df = J, candidates_df = DataFrame cands\<rparr> = Inr d"
  shows "if is_empty (DataFrame cands) then candidates_df d = DataFrame cands
         else \<exists>a. td (field_column ''dateadded'' cands) = Inr a
                \<and> rows (candidates_df d) = map (candidate_row a) (rows (DataFrame cands))
                \<and> set (columns (candidates_df d))
                     = insert ''week'' (insert ''month'' (set (columns (DataFrame cands))))
                \<and> \<not> is_empty (candidates_df d)"
proof (cases "is_empty (DataFrame cands)")
  case True
  then show ?thesis using assms
    by (simp add: preprocess_data_def preprocess_empty split: sum.splits) auto
next
  case False
  from assms obtain c where c: "preprocess_candidates td (DataFrame cands) = Inr c" "candidates_df d = c"
    by (auto simp: preprocess_data_def split: sum.splits)
  from preprocess_candidates_Inr [OF c(1) False] obtain a where
    a: "td (field_column ''dateadded'' cands) = Inr a"
    and r: "rows c = map (candidate_row a) (rows (DataFrame cands))"
    and cs: "set (columns c) = insert ''week'' (insert ''month'' (set (columns (DataFrame cands))))"
    by (auto simp: column_DataFrame)
  from cs have "''week'' \<in> set (columns c)" by simp
  with r have ne: "\<not> is_empty c" using False by (rule not_empty_rows)
  with a r cs False c(2) show ?thesis by auto
qed

lemma job_metrics_Inr:
  assumes "job_metrics df m0 = Inr m"
  shows "m ''avg_time_to_fill'' =
           Some (if nums (map (\<lambda>r. r ''days_to_fill'') (rows df)) \<noteq> []
                 then MFloat (mean (nums (map (\<lambda>r. r ''days_to_fill'') (rows df)))) else MInt 0)"
  using assms
  by (auto simp: job_metrics_def getitem_def Let_def split: if_splits)

lemma candidate_metrics_Inr:
  assumes "candidate_metrics now df m0 = Inr m"
  shows "m ''avg_time_to_fill'' = m0 ''avg_time_to_fill''"
    and "m ''total_candidates'' = Some (MInt (int (length (rows df))))"
    and "m ''candidates_this_month'' =
           Some (MInt (int (length (filter (\<lambda>c. case c of Time t \<Rightarrow> now - 30 * day \<le> t | _ \<Rightarrow> False)
                                       (map (\<lambda>r. r ''dateadded'') (rows df))))))"
    and "\<not> aware (map (\<lambda>r. r ''dateadded'') (rows df))"
  using assms
  by (auto simp: candidate_metrics_def getitem_def Let_def split: if_splits)

lemma nums_map:
  assumes "\<And>x. x \<in> set xs \<Longrightarrow> (case f x of Num n \<Rightarrow> Some n | _ \<Rightarrow> None) = g x"
  shows "nums (map f xs) = List.map_filter g xs"
  using assms
proof (induction xs)
  case Nil
  show ?case by (simp add: map_filter_simps)
next
  case (Cons x xs)
  from Cons.prems [of x] have x: "(case f x of Num n \<Rightarrow> Some n | _ \<Rightarrow> None) = g x" by simp
  from Cons have "nums (map f xs) = List.map_filter g xs" by simp
  with x [symmetric] show ?case by (cases "f x") (simp_all add: map_filter_simps)
qed

lemma nums_days_to_fill:
  assumes p: "td (field_column ''dateposted'' jobs) = Inr p"
    and c: "td (field_column ''dateclosed'' jobs) = Inr c"
    and aw: "aware (map (coerce c) (field_column ''dateclosed'' jobs))
               = aware (map (coerce p) (field_column ''dateposted'' jobs))"
  shows "nums (map (\<lambda>r. r ''days_to_fill'') (map (job_row p c) (rows (DataFrame jobs))))
           = List.map_filter (spec_days_to_fill td jobs) jobs"
proof -
  have pp: "parsed td ''dateposted'' jobs = (\<lambda>d. coerce p (cell_of (map_of d ''dateposted'')))"
    using p by (rule parsed_Inr)
  have pc: "parsed td ''dateclosed'' jobs = (\<lambda>d. coerce c (cell_of (map_of d ''dateclosed'')))"
    using c by (rule parsed_Inr)
  have "(case days_between (coerce c (cell_of (map_of j ''dateclosed'')))
                           (coerce p (cell_of (map_of j ''dateposted''))) of
           Num n \<Rightarrow> Some n | _ \<Rightarrow> None) = spec_days_to_fill td jobs j"
    if "j \<in> set jobs" for j
  proof -
    have xc: "cell_of (map_of j ''dateclosed'') \<in> set (field_column ''dateclosed'' jobs)"
      and xp: "cell_of (map_of j ''dateposted'') \<in> set (field_column ''dateposted'' jobs)"
      using that by (simp_all add: field_column_def)
    show ?thesis
      by (simp add: days_between_spec [OF aw xc xp] spec_days_to_fill_def pp pc
            split: option.splits)
  qed
  then have "nums (map (\<lambda>j. days_between (coerce c (cell_of (map_of j ''dateclosed'')))
                                       (coerce p (cell_of (map_of j ''dateposted'')))) jobs)
               = List.map_filter (spec_days_to_fill td jobs) jobs"
    by (rule nums_map)
  then show ?thesis by (simp add: rows_DataFrame job_row_def o_def)
qed

lemma empty_DataFrame_records:
  assumes "is_empty (DataFrame data)" "d \<in> set data"
  shows "d = []"
proof (rule ccontr)
  assume "d \<noteq> []"
  then obtain kv rest where d: "d = kv # rest" by (cases d) auto
  then have "fst kv \<in> fst ` set d" by simp
  with assms(2) have "fst kv \<in> (\<Union>d\<in>set data. fst ` set d)" by (rule UN_I)
  then have "fst kv \<in> set (columns (DataFrame data))" by (simp only: columns_DataFrame)
  moreover from assms(2) have "rows (DataFrame data) \<noteq> []" by (auto simp: rows_DataFrame)
  with assms(1) have "columns (DataFrame data) = []" by (simp add: is_empty_def)
  ultimately show False by simp
qed

lemma parsed_no_field: "parsed td key records [] = NA"
  by (auto simp: parsed_def coerce_def cell_of_def split: sum.splits conv.splits)

lemma empty_DataFrame_days:
  assumes "is_empty (DataFrame jobs)"
  shows "List.map_filter (spec_days_to_fill td jobs) jobs = []"
proof -
  have "spec_days_to_fill td jobs j = None" if "j \<in> set jobs" for j
  proof -
    from empty_DataFrame_records [OF assms that] have "j = []" .
    then show ?thesis by (simp add: spec_days_to_fill_def parsed_no_field)
  qed
  then have "filter (\<lambda>j. spec_days_to_fill td jobs j \<noteq> None) jobs = []"
    by (simp add: filter_empty_conv)
  then show ?thesis by (simp add: List.map_filter_def)
qed

lemma calculate_metrics_jobs_block:
  assumes "calculate_metrics now d = Inr m"
  shows "if is_empty (jobs_df d) then m ''avg_time_to_fill'' = None
         else m ''avg_time_to_fill'' =
                Some (if nums (map (\<lambda>r. r ''days_to_fill'') (rows (jobs_df d))) \<noteq> []
                      then MFloat (mean (nums (map (\<lambda>r. r ''days_to_fill'') (rows (jobs_df d)))))
                      else MInt 0)"
proof -
  let ?m0 = "if \<not> is_empty (jobs_df d) then job_metrics (jobs_df d) Map.empty else Inr Map.empty"
  from assms obtain m0 where m0: "?m0 = Inr m0"
    by (cases ?m0) (simp_all add: calculate_metrics_def)
  have keep: "m ''avg_time_to_fill'' = m0 ''avg_time_to_fill''"
  proof (cases "is_empty (candidates_df d)")
    case True
    with assms m0 show ?thesis by (simp add: calculate_metrics_def)
  next
    case False
    with assms m0 have "candidate_metrics now (candidates_df d) m0 = Inr m"
      by (simp add: calculate_metrics_def)
    then show ?thesis by (rule candidate_metrics_Inr(1))
  qed
  show ?thesis
  proof (cases "is_empty (jobs_df d)")
    case True
    with m0 have "m0 = Map.empty" by simp
    with keep True show ?thesis by simp
  next
    case False
    with m0 have "job_metrics (jobs_df d) Map.empty = Inr m0" by simp
    from job_metrics_Inr [OF this] keep False show ?thesis by simp
  qed
qed

text \<open>
  C5 (as the code has it). Whenever preprocessing and \<^verbatim>\<open>calculate_metrics\<close> return:
  for a jobs frame that is not empty, the returned mapping holds under avg_time_to_fill
  the arithmetic mean of the days to fill of exactly the jobs for which they are defined,
  and the integer 0 when there is none, so that jobs with a missing or unparseable date are
  left out of the mean; for an empty jobs frame the mapping has no such key. In both cases
  the page, which reads the key with the default 0, shows the mean, or 0 when no job has
  days to fill.
\<close>

theorem avg_time_to_fill_is_mean_of_defined:
  assumes "preprocess_data td \<lparr>jobs_df = DataFrame jobs, candidates_df = DataFrame cands\<rparr> = Inr d"
    and "calculate_metrics now d = Inr m"
  shows "m ''avg_time_to_fill'' =
           (if is_empty (DataFrame jobs) then None
            else let ds = List.map_filter (spec_days_to_fill td jobs) jobs in
                 Some (if ds = [] then MInt 0
                       else MFloat (of_int (sum_list ds) / of_nat (length ds))))
         \<and> get m ''avg_time_to_fill'' (MInt 0) =
             (let ds = List.map_filter (spec_days_to_fill td jobs) jobs in
              if ds = [] then MInt 0 else MFloat (of_int (sum_list ds) / of_nat (length ds)))"
proof (cases "is_empty (DataFrame jobs)")
  case True
  with preprocess_data_jobs [OF assms(1)] have "is_empty (jobs_df d)" by simp
  with calculate_metrics_jobs_block [OF assms(2)] have "m ''avg_time_to_fill'' = None" by simp
  then show ?thesis using True empty_DataFrame_days [OF True, of td] by (simp add: get_def)
next
  case False
  with preprocess_data_jobs [OF assms(1)] obtain p c where
    p: "td (field_column ''dateposted'' jobs) = Inr p"
    and c: "td (field_column ''dateclosed'' jobs) = Inr c"
    and r: "rows (jobs_df d) = map (job_row p c) (rows (DataFrame jobs))"
    and ne: "\<not> is_empty (jobs_df d)"
    and aw: "aware (map (coerce c) (field_column ''dateclosed'' jobs))
               = aware (map (coerce p) (field_column ''dateposted'' jobs))"
    by auto
  have "nums (map (\<lambda>r. r ''days_to_fill'') (rows (jobs_df d)))
          = List.map_filter (spec_days_to_fill td jobs) jobs"
    unfolding r using p c aw by (rule nums_days_to_fill)
  with calculate_metrics_jobs_block [OF assms(2)] ne False show ?thesis
    by (simp add: get_def mean_def Let_def)
qed

lemma job_metrics_ok:
  assumes "''status'' \<in> set (columns df)" "''days_to_fill'' \<in> set (columns df)"
  shows "\<exists>m. job_metrics df m0 = Inr m"
  using assms by (simp add: job_metrics_def getitem_def Let_def)

lemma candidate_metrics_ok:
  assumes "''dateadded'' \<in> set (columns df)" "''source'' \<in> set (columns df)"
    and "\<not> aware (map (\<lambda>r. r ''dateadded'') (rows df))"
  shows "\<exists>m. candidate_metrics now df m0 = Inr m"
  using assms by (simp add: candidate_metrics_def getitem_def Let_def)

lemma calculate_metrics_ok:
  assumes "is_empty (jobs_df d)
           \<or> (''status'' \<in> set (columns (jobs_df d)) \<and> ''days_to_fill'' \<in> set (columns (jobs_df d)))"
    and "is_empty (candidates_df d)
         \<or> (''dateadded'' \<in> set (columns (candidates_df d)) \<and> ''source'' \<in> set (columns (candidates_df d))
            \<and> \<not> aware (map (\<lambda>r. r ''dateadded'') (rows (candidates_df d))))"
  shows "\<exists>m. calculate_metrics now d = Inr m"
proof -
  obtain m0 where m0:
    "(if \<not> is_empty (jobs_df d) then job_metrics (jobs_df d) Map.empty else Inr Map.empty) = Inr m0"
    using assms(1) job_metrics_ok [of "jobs_df d" Map.empty] by (cases "is_empty (jobs_df d)") auto
  show ?thesis
  proof (cases "is_empty (candidates_df d)")
    case True
    with m0 show ?thesis by (simp add: calculate_metrics_def)
  next
    case False
    with assms(2) candidate_metrics_ok [of "candidates_df d" now m0]
    obtain m where "candidate_metrics now (candidates_df d) m0 = Inr m" by blast
    with False m0 show ?thesis by (simp add: calculate_metrics_def)
  qed
qed

text \<open>
  Enough for preprocessing and \<^verbatim>\<open>calculate_metrics\<close> to return: each frame is empty
  or has the columns that are read, the date columns convert, the two date columns of the
  jobs are of one kind, and the dates of the candidates are timezone-naive.
\<close>

lemma pipeline_ok:
  assumes "is_empty (DataFrame jobs)
           \<or> (''status'' \<in> set (columns (DataFrame jobs))
              \<and> ''dateposted'' \<in> set (columns (DataFrame jobs))
              \<and> ''dateclosed'' \<in> set (columns (DataFrame jobs))
              \<and> td (field_column ''dateposted'' jobs) = Inr p
              \<and> td (field_column ''dateclosed'' jobs) = Inr c
              \<and> aware (map (coerce c) (field_column ''dateclosed'' jobs))
                   = aware (map (coerce p) (field_column ''dateposted'' jobs)))"
    and "is_empty (DataFrame cands)
         \<or> (''dateadded'' \<in> set (columns (DataFrame cands))
            \<and> ''source'' \<in> set (columns (DataFrame cands))
            \<and> td (field_column ''dateadded'' cands) = Inr (Naive f))"
  shows "\<exists>d m. preprocess_data td \<lparr>jobs_df = DataFrame jobs, candidates_df = DataFrame cands\<rparr> = Inr d
               \<and> calculate_metrics now d = Inr m"
proof -
  let ?J = "DataFrame jobs" and ?C = "DataFrame cands"
  have "\<exists>j. preprocess_jobs td ?J = Inr j
             \<and> (is_empty j \<or> (''status'' \<in> set (columns j) \<and> ''days_to_fill'' \<in> set (columns j)))"
  proof (cases "is_empty ?J")
    case True then show ?thesis by (simp add: preprocess_empty)
  next
    case False
    with assms(1) have h: "''status'' \<in> set (columns ?J)" "''dateposted'' \<in> set (columns ?J)"
      "''dateclosed'' \<in> set (columns ?J)"
      "td (map (\<lambda>r. r ''dateposted'') (rows ?J)) = Inr p"
      "td (map (\<lambda>r. r ''dateclosed'') (rows ?J)) = Inr c"
      "aware (map (\<lambda>r. coerce c (r ''dateclosed'')) (rows ?J))
         = aware (map (\<lambda>r. coerce p (r ''dateposted'')) (rows ?J))"
      by (simp_all add: column_DataFrame) (simp add: rows_DataFrame field_column_def o_def)
    from preprocess_jobs_ok [of ?J td p c] False h show ?thesis by auto
  qed
  then obtain j where j: "preprocess_jobs td ?J = Inr j"
    and jc: "is_empty j \<or> (''status'' \<in> set (columns j) \<and> ''days_to_fill'' \<in> set (columns j))"
    by blast
  have "\<exists>c. preprocess_candidates td ?C = Inr c
             \<and> (is_empty c \<or> (''dateadded'' \<in> set (columns c) \<and> ''source'' \<in> set (columns c)
                  \<and> \<not> aware (map (\<lambda>r. r ''dateadded'') (rows c))))"
  proof (cases "is_empty ?C")
    case True then show ?thesis by (simp add: preprocess_empty)
  next
    case False
    with assms(2) have h: "''dateadded'' \<in> set (columns ?C)" "''source'' \<in> set (columns ?C)"
      "td (map (\<lambda>r. r ''dateadded'') (rows ?C)) = Inr (Naive f)"
      by (simp_all add: column_DataFrame)
    from preprocess_candidates_ok [of ?C td "Naive f"] False h obtain c' where
      c': "preprocess_candidates td ?C = Inr c'"
      and r: "rows c' = map (candidate_row (Naive f)) (rows ?C)"
      and cs: "set (columns c') = insert ''week'' (insert ''month'' (set (columns ?C)))" by blast
    have "map (\<lambda>r. r ''dateadded'') (rows c')
            = map (coerce (Naive f)) (map (\<lambda>r. r ''dateadded'') (rows ?C))"
      by (simp add: r candidate_row_def o_def)
    then have "\<not> aware (map (\<lambda>r. r ''dateadded'') (rows c'))"
      by (simp only: naive_not_aware not_False_eq_True)
    with c' cs h show ?thesis by auto
  qed
  then obtain c' where c': "preprocess_candidates td ?C = Inr c'"
    and cc: "is_empty c' \<or> (''dateadded'' \<in> set (columns c') \<and> ''source'' \<in> set (columns c')
                  \<and> \<not> aware (map (\<lambda>r. r ''dateadded'') (rows c')))"
    by blast
  have d: "preprocess_data td \<lparr>jobs_df = ?J, candidates_df = ?C\<rparr> = Inr \<lparr>jobs_df = j, candidates_df = c'\<rparr>"
    by (simp add: preprocess_data_def j c')
  from calculate_metrics_ok [of "\<lparr>jobs_df = j, candidates_df = c'\<rparr>" now] jc cc
  obtain m where "calculate_metrics now \<lparr>jobs_df = j, candidates_df = c'\<rparr> = Inr m" by auto
  with d show ?thesis by blast
qed

lemma empty_frames:
  "is_empty (DataFrame [])"
  by (simp add: DataFrame_def is_empty_def)

text \<open>Three jobs, filled in 10 and 4 days and not closed: the mean is 7.\<close>

theorem avg_time_to_fill_is_mean_of_defined_witness:
  "\<exists>d m. preprocess_data iso_to_datetime
            \<lparr>jobs_df = DataFrame
               [[(''id'', JStr ''1''), (''status'', JStr ''closed''), (''dateposted'', JStr ''2024-01-01''), (''dateclosed'', JStr ''2024-01-11'')],
                [(''id'', JStr ''2''), (''status'', JStr ''closed''), (''dateposted'', JStr ''2024-01-01''), (''dateclosed'', JStr ''2024-01-05'')],
                [(''id'', JStr ''3''), (''status'', JStr ''open''), (''dateposted'', JStr ''2024-01-02''), (''dateclosed'', JNull)]],
             candidates_df = DataFrame []\<rparr> = Inr d
         \<and> calculate_metrics 0 d = Inr m
         \<and> m ''avg_time_to_fill'' = Some (MFloat 7)"
proof -
  let ?J = "[[(''id'', JStr ''1''), (''status'', JStr ''closed''), (''dateposted'', JStr ''2024-01-01''), (''dateclosed'', JStr ''2024-01-11'')],
             [(''id'', JStr ''2''), (''status'', JStr ''closed''), (''dateposted'', JStr ''2024-01-01''), (''dateclosed'', JStr ''2024-01-05'')],
             [(''id'', JStr ''3''), (''status'', JStr ''open''), (''dateposted'', JStr ''2024-01-02''), (''dateclosed'', JNull)]]"
  have cols: "columns (DataFrame ?J) = [''id'', ''status'', ''dateposted'', ''dateclosed'']"
    by (simp add: DataFrame_def uniq_def)
  have ne: "\<not> is_empty (DataFrame ?J)"
    by (simp add: is_empty_def cols rows_DataFrame)
  have tp: "iso_to_datetime (field_column ''dateposted'' ?J) = Inr (Naive iso_date)"
    by (simp add: field_column_def cell_of_def iso_to_datetime_dates iso_dates)
  have tc: "iso_to_datetime (field_column ''dateclosed'' ?J) = Inr (Naive iso_date)"
    by (simp add: field_column_def cell_of_def iso_to_datetime_dates iso_dates)
  have "\<exists>d m. preprocess_data iso_to_datetime \<lparr>jobs_df = DataFrame ?J, candidates_df = DataFrame []\<rparr> = Inr d
               \<and> calculate_metrics 0 d = Inr m"
    by (rule pipeline_ok [where p = "Naive iso_date" and c = "Naive iso_date"])
       (simp_all add: cols tp tc empty_frames naive_not_aware)
  then obtain d m where
    d: "preprocess_data iso_to_datetime \<lparr>jobs_df = DataFrame ?J, candidates_df = DataFrame []\<rparr> = Inr d"
    and m: "calculate_metrics 0 d = Inr m" by blast
  have ds: "List.map_filter (spec_days_to_fill iso_to_datetime ?J) ?J = [10, 4]"
    by (simp add: map_filter_simps spec_days_to_fill_def parsed_def tp tc cell_of_def coerce_def
          iso_dates day_def)
  from avg_time_to_fill_is_mean_of_defined [OF d m] ne have "m ''avg_time_to_fill'' = Some (MFloat 7)"
    unfolding ds by simp
  with d m show ?thesis by blast
qed

text \<open>
  C5 as stated fails for an empty job list next to one candidate: the mapping that
  \<^verbatim>\<open>calculate_metrics\<close> returns has no avg_time_to_fill at all, where the claim has 0.
\<close>

theorem avg_time_to_fill_absent_counterexample:
  "\<not> (case preprocess_data iso_to_datetime
              \<lparr>jobs_df = DataFrame [],
               candidates_df = DataFrame [[(''source'', JStr ''web''), (''dateadded'', JStr ''2024-01-09'')]]\<rparr> of
         Inl e \<Rightarrow> False
       | Inr d \<Rightarrow>
           (case calculate_metrics (19753 * day) d of
              Inl e \<Rightarrow> False
            | Inr m \<Rightarrow> m ''avg_time_to_fill'' = Some (MInt 0)))"
proof -
  let ?C = "[[(''source'', JStr ''web''), (''dateadded'', JStr ''2024-01-09'')]]"
  have cols: "columns (DataFrame ?C) = [''source'', ''dateadded'']"
    by (simp add: DataFrame_def uniq_def)
  have ta: "iso_to_datetime (field_column ''dateadded'' ?C) = Inr (Naive iso_date)"
    by (simp add: field_column_def cell_of_def iso_to_datetime_dates iso_dates)
  have "\<exists>d m. preprocess_data iso_to_datetime \<lparr>jobs_df = DataFrame [], candidates_df = DataFrame ?C\<rparr> = Inr d
               \<and> calculate_metrics (19753 * day) d = Inr m"
    by (rule pipeline_ok [where f = iso_date]) (simp_all add: cols ta empty_frames)
  then obtain d m where
    d: "preprocess_data iso_to_datetime \<lparr>jobs_df = DataFrame [], candidates_df = DataFrame ?C\<rparr> = Inr d"
    and m: "calculate_metrics (19753 * day) d = Inr m" by blast
  from preprocess_data_jobs [OF d] have "is_empty (jobs_df d)" by (simp add: empty_frames)
  with calculate_metrics_jobs_block [OF m] have "m ''avg_time_to_fill'' = None" by simp
  then show ?thesis by (simp only: d sum.case m) simp
qed

section \<open>Candidates by week and by recency\<close>

lemma dateadded_column:
  assumes "td (field_column ''dateadded'' cands) = Inr a"
  shows "map (\<lambda>r. r ''dateadded'') (map (candidate_row a) (rows (DataFrame cands)))
           = map (parsed td ''dateadded'' cands) cands"
proof -
  have "parsed td ''dateadded'' cands = (\<lambda>d. coerce a (cell_of (map_of d ''dateadded'')))"
    using assms by (rule parsed_Inr)
  then show ?thesis by (simp add: rows_DataFrame candidate_row_def o_def)
qed

lemma week_column:
  assumes "td (field_column ''dateadded'' cands) = Inr a"
  shows "map (\<lambda>r. r ''week'') (map (candidate_row a) (rows (DataFrame cands)))
           = map (\<lambda>c. case spec_week td cands c of Some w \<Rightarrow> Period w | None \<Rightarrow> NA) cands"
proof -
  have p: "parsed td ''dateadded'' cands = (\<lambda>d. coerce a (cell_of (map_of d ''dateadded'')))"
    using assms by (rule parsed_Inr)
  have "period_of week_of x = (case (case x of Time t \<Rightarrow> Some (week_of t)
                                   | TimeTz t off \<Rightarrow> Some (week_of (t + off)) | _ \<Rightarrow> None) of
                                 Some w \<Rightarrow> Period w | None \<Rightarrow> NA)" for x
    by (cases x) (simp_all add: period_of_def)
  then show ?thesis by (simp add: rows_DataFrame candidate_row_def spec_week_def p o_def)
qed

lemma spec_week_defined: "spec_week td cands c \<noteq> None \<longleftrightarrow> spec_date_added td cands c \<noteq> None"
  by (cases "parsed td ''dateadded'' cands c") (simp_all add: spec_week_def spec_date_added_def)

lemma periods_map_option:
  "periods (map (\<lambda>c. case f c of Some w \<Rightarrow> Period w | None \<Rightarrow> NA) xs) = List.map_filter f xs"
  by (induction xs) (simp_all add: map_filter_simps split: option.splits)

lemma count_period_map_option:
  "length (filter ((\<lambda>c. c = Period k) \<circ> (\<lambda>c. case f c of Some w \<Rightarrow> Period w | None \<Rightarrow> NA)) xs)
     = length (filter (\<lambda>c. f c = Some k) xs)"
  by (induction xs) (simp_all split: option.splits)

lemma length_map_filter:
  "length (List.map_filter f xs) = length (filter (\<lambda>x. f x \<noteq> None) xs)"
  by (simp add: List.map_filter_def)

lemma count_list_map_filter:
  "count_list (List.map_filter f xs) k = length (filter (\<lambda>x. f x = Some k) xs)"
  by (induction xs) (simp_all add: map_filter_simps split: option.splits)

lemma count_list_map_filter_fun:
  "count_list (List.map_filter f xs) = (\<lambda>k. length (filter (\<lambda>x. f x = Some k) xs))"
  by (rule ext) (rule count_list_map_filter)

lemma sum_group_sizes:
  "sum_list (map (\<lambda>k. length (filter (\<lambda>x. f x = Some k) xs)) (sort (remdups (List.map_filter f xs))))
     = length (filter (\<lambda>x. f x \<noteq> None) xs)"
proof -
  let ?ks = "List.map_filter f xs"
  have "sum_list (map (\<lambda>k. length (filter (\<lambda>x. f x = Some k) xs)) (sort (remdups ?ks)))
          = sum_list (map (count_list ?ks) (sort (remdups ?ks)))"
    by (simp only: count_list_map_filter_fun)
  also have "\<dots> = sum (count_list ?ks) (set ?ks)"
    by (simp add: sum_list_distinct_conv_sum_set)
  also have "\<dots> = length ?ks" by (rule sum_count_set) simp_all
  also have "\<dots> = length (filter (\<lambda>x. f x \<noteq> None) xs)" by (rule length_map_filter)
  finally show ?thesis .
qed

lemma sum_spec_weekly_counts:
  "sum_list (map snd (spec_weekly_counts td cands))
     = length (filter (\<lambda>c. spec_date_added td cands c \<noteq> None) cands)"
proof -
  have "sum_list (map snd (spec_weekly_counts td cands))
          = length (filter (\<lambda>c. spec_week td cands c \<noteq> None) cands)"
    unfolding spec_weekly_counts_def by (simp add: o_def sum_group_sizes)
  then show ?thesis by (simp only: spec_week_defined)
qed

lemma sorted_spec_weekly_counts:
  "sorted (map fst (spec_weekly_counts td cands))"
  "distinct (map fst (spec_weekly_counts td cands))"
  by (simp_all add: spec_weekly_counts_def o_def)

lemma empty_spec_weekly_counts:
  assumes "is_empty (DataFrame cands)"
  shows "spec_weekly_counts td cands = []"
proof -
  have "spec_week td cands c = None" if "c \<in> set cands" for c
  proof -
    from empty_DataFrame_records [OF assms that] have "c = []" .
    then show ?thesis by (simp add: spec_week_def parsed_no_field)
  qed
  then have "filter (\<lambda>c. spec_week td cands c \<noteq> None) cands = []"
    by (simp add: filter_empty_conv)
  then show ?thesis by (simp add: spec_weekly_counts_def List.map_filter_def)
qed

lemma timeline_of_preprocessed:
  assumes "preprocess_candidates td (DataFrame cands) = Inr c"
  shows "create_timeline_chart \<lparr>jobs_df = J, candidates_df = c\<rparr> = Inr (spec_weekly_counts td cands)"
proof (cases "is_empty (DataFrame cands)")
  case True
  with assms have "c = DataFrame cands" by (simp add: preprocess_empty)
  with True show ?thesis by (simp add: create_timeline_chart_def empty_spec_weekly_counts)
next
  case False
  from preprocess_candidates_Inr [OF assms False] obtain a where
    a: "td (field_column ''dateadded'' cands) = Inr a"
    and r: "rows c = map (candidate_row a) (rows (DataFrame cands))"
    and cs: "set (columns c) = insert ''week'' (insert ''month'' (set (columns (DataFrame cands))))"
    by (auto simp: column_DataFrame)
  from cs have wc: "''week'' \<in> set (columns c)" by simp
  with r have ne: "\<not> is_empty c" using False by (rule not_empty_rows)
  have "map (\<lambda>r. r ''week'') (rows c)
          = map (\<lambda>c. case spec_week td cands c of Some w \<Rightarrow> Period w | None \<Rightarrow> NA) cands"
    unfolding r using a by (rule week_column)
  with wc have wk: "getitem c ''week''
              = Inr (map (\<lambda>c. case spec_week td cands c of Some w \<Rightarrow> Period w | None \<Rightarrow> NA) cands)"
    by (simp add: getitem_def)
  show ?thesis
    using ne by (simp add: create_timeline_chart_def wk periods_map_option count_period_map_option
        spec_weekly_counts_def)
qed

lemma calculate_metrics_candidates_block:
  assumes "calculate_metrics now d = Inr m" and "\<not> is_empty (candidates_df d)"
  shows "m ''total_candidates'' = Some (MInt (int (length (rows (candidates_df d)))))"
    and "m ''candidates_this_month'' =
           Some (MInt (int (length (filter (\<lambda>c. case c of Time t \<Rightarrow> now - 30 * day \<le> t | _ \<Rightarrow> False)
                                       (map (\<lambda>r. r ''dateadded'') (rows (candidates_df d)))))))"
    and "\<not> aware (map (\<lambda>r. r ''dateadded'') (rows (candidates_df d)))"
proof -
  let ?m0 = "if \<not> is_empty (jobs_df d) then job_metrics (jobs_df d) Map.empty else Inr Map.empty"
  from assms(1) obtain m0 where m0: "?m0 = Inr m0"
    by (cases ?m0) (simp_all add: calculate_metrics_def)
  with assms have cm: "candidate_metrics now (candidates_df d) m0 = Inr m"
    by (simp add: calculate_metrics_def)
  from candidate_metrics_Inr(2) [OF cm]
  show "m ''total_candidates'' = Some (MInt (int (length (rows (candidates_df d)))))" .
  from candidate_metrics_Inr(3) [OF cm]
  show "m ''candidates_this_month'' =
           Some (MInt (int (length (filter (\<lambda>c. case c of Time t \<Rightarrow> now - 30 * day \<le> t | _ \<Rightarrow> False)
                                       (map (\<lambda>r. r ''dateadded'') (rows (candidates_df d)))))))" .
  from candidate_metrics_Inr(4) [OF cm]
  show "\<not> aware (map (\<lambda>r. r ''dateadded'') (rows (candidates_df d)))" .
qed

lemma recent_count:
  assumes "\<not> aware (map f xs)"
  shows "length (filter (\<lambda>c. case c of Time t \<Rightarrow> lo \<le> t | _ \<Rightarrow> False) (map f xs))
           = length (filter (\<lambda>x. case instant (f x) of Some t \<Rightarrow> lo \<le> t | None \<Rightarrow> False) xs)"
  using assms
proof (induction xs)
  case Nil
  show ?case by simp
next
  case (Cons x xs)
  then have "\<not> is_tz (f x)" "\<not> aware (map f xs)" by (simp_all add: aware_def)
  with Cons.IH show ?case by (cases "f x") simp_all
qed

lemma candidate_counts:
  assumes d: "preprocess_data td \<lparr>jobs_df = DataFrame jobs, candidates_df = DataFrame cands\<rparr> = Inr d"
    and m: "calculate_metrics now d = Inr m"
    and ne: "\<not> is_empty (DataFrame cands)"
  shows "m ''total_candidates'' = Some (MInt (int (length cands)))"
    and "m ''candidates_this_month'' =
           Some (MInt (int (length (filter (\<lambda>c. case spec_date_added td cands c of
                                                   Some t \<Rightarrow> now - 30 * day \<le> t | None \<Rightarrow> False) cands))))"
proof -
  from preprocess_data_candidates [OF d] ne obtain a where
    a: "td (field_column ''dateadded'' cands) = Inr a"
    and r: "rows (candidates_df d) = map (candidate_row a) (rows (DataFrame cands))"
    and ne': "\<not> is_empty (candidates_df d)" by auto
  from calculate_metrics_candidates_block(1) [OF m ne']
  show "m ''total_candidates'' = Some (MInt (int (length cands)))"
    by (simp add: r rows_DataFrame)
  have col: "map (\<lambda>r. r ''dateadded'') (rows (candidates_df d)) = map (parsed td ''dateadded'' cands) cands"
    unfolding r using a by (rule dateadded_column)
  from calculate_metrics_candidates_block(3) [OF m ne']
  have na: "\<not> aware (map (parsed td ''dateadded'' cands) cands)" by (simp only: col not_False_eq_True)
  from calculate_metrics_candidates_block(2) [OF m ne']
  have "m ''candidates_this_month'' =
          Some (MInt (int (length (filter (\<lambda>c. case c of Time t \<Rightarrow> now - 30 * day \<le> t | _ \<Rightarrow> False)
                                      (map (parsed td ''dateadded'' cands) cands)))))"
    by (simp only: col)
  then show "m ''candidates_this_month'' =
           Some (MInt (int (length (filter (\<lambda>c. case spec_date_added td cands c of
                                                   Some t \<Rightarrow> now - 30 * day \<le> t | None \<Rightarrow> False) cands))))"
    by (simp only: recent_count [OF na] spec_date_added_def)
qed

text \<open>
  C9 (as the code has it). For a candidates frame that is not empty, whenever
  preprocessing and \<^verbatim>\<open>calculate_metrics\<close> return, candidates_this_month is the number of
  candidates whose date_added parses to a time not earlier than now minus 30 days. The
  comparison has no upper bound: a date after "now" is counted too.
\<close>

theorem candidates_this_month_since_30_days:
  assumes "preprocess_data td \<lparr>jobs_df = DataFrame jobs, candidates_df = DataFrame cands\<rparr> = Inr d"
    and "calculate_metrics now d = Inr m"
    and "\<not> is_empty (DataFrame cands)"
  shows "m ''candidates_this_month'' =
           Some (MInt (int (length (filter (\<lambda>c. case spec_date_added td cands c of
                                                   Some t \<Rightarrow> now - 30 * day \<le> t
                                                 | None \<Rightarrow> False) cands))))"
  using assms by (rule candidate_counts(2))

text \<open>
  With "now" on 2024-01-31: a candidate added on 2024-01-09 and one dated 2024-03-01 are
  counted, one with an unparseable date is not.
\<close>

theorem candidates_this_month_since_30_days_witness:
  "\<exists>d m. preprocess_data iso_to_datetime
            \<lparr>jobs_df = DataFrame [],
             candidates_df = DataFrame
               [[(''source'', JStr ''web''), (''dateadded'', JStr ''2024-01-09'')],
                [(''source'', JStr ''web''), (''dateadded'', JStr ''bad'')],
                [(''source'', JStr ''web''), (''dateadded'', JStr ''2024-03-01'')]]\<rparr> = Inr d
         \<and> calculate_metrics (19753 * day) d = Inr m
         \<and> m ''candidates_this_month'' = Some (MInt 2)"
proof -
  let ?C = "[[(''source'', JStr ''web''), (''dateadded'', JStr ''2024-01-09'')],
             [(''source'', JStr ''web''), (''dateadded'', JStr ''bad'')],
             [(''source'', JStr ''web''), (''dateadded'', JStr ''2024-03-01'')]]"
  have cols: "columns (DataFrame ?C) = [''source'', ''dateadded'']"
    by (simp add: DataFrame_def uniq_def)
  have ne: "\<not> is_empty (DataFrame ?C)"
    by (simp add: is_empty_def cols rows_DataFrame)
  have ta: "iso_to_datetime (field_column ''dateadded'' ?C) = Inr (Naive iso_date)"
    by (simp add: field_column_def cell_of_def iso_to_datetime_dates iso_dates)
  have "\<exists>d m. preprocess_data iso_to_datetime \<lparr>jobs_df = DataFrame [], candidates_df = DataFrame ?C\<rparr> = Inr d
               \<and> calculate_metrics (19753 * day) d = Inr m"
    by (rule pipeline_ok [where f = iso_date]) (simp_all add: cols ta empty_frames)
  then obtain d m where
    d: "preprocess_data iso_to_datetime \<lparr>jobs_df = DataFrame [], candidates_df = DataFrame ?C\<rparr> = Inr d"
    and m: "calculate_metrics (19753 * day) d = Inr m" by blast
  from candidates_this_month_since_30_days [OF d m ne]
  have "m ''candidates_this_month'' = Some (MInt 2)"
    by (simp add: spec_date_added_def parsed_def ta cell_of_def coerce_def iso_dates day_def)
  with d m show ?thesis by blast
qed

text \<open>
  C9 as stated fails for a candidate dated after "now": with "now" on 2024-01-31 and one
  candidate dated 2024-03-01, candidates_this_month is 1, and no candidate lies between
  now minus 30 days and now.
\<close>

theorem candidates_this_month_future_counterexample:
  "\<not> (case preprocess_data iso_to_datetime
              \<lparr>jobs_df = DataFrame [],
               candidates_df = DataFrame [[(''source'', JStr ''web''), (''dateadded'', JStr ''2024-03-01'')]]\<rparr> of
         Inl e \<Rightarrow> False
       | Inr d \<Rightarrow>
           (case calculate_metrics (19753 * day) d of
              Inl e \<Rightarrow> False
            | Inr m \<Rightarrow>
                m ''candidates_this_month'' =
                  Some (MInt (int (length (filter
                     (\<lambda>c. case spec_date_added iso_to_datetime
                                  [[(''source'', JStr ''web''), (''dateadded'', JStr ''2024-03-01'')]] c of
                             Some t \<Rightarrow> 19753 * day - 30 * day \<le> t \<and> t \<le> 19753 * day
                           | None \<Rightarrow> False)
                     [[(''source'', JStr ''web''), (''dateadded'', JStr ''2024-03-01'')]]))))))"
proof -
  let ?C = "[[(''source'', JStr ''web''), (''dateadded'', JStr ''2024-03-01'')]]"
  have cols: "columns (DataFrame ?C) = [''source'', ''dateadded'']"
    by (simp add: DataFrame_def uniq_def)
  have ne: "\<not> is_empty (DataFrame ?C)"
    by (simp add: is_empty_def cols rows_DataFrame)
  have ta: "iso_to_datetime (field_column ''dateadded'' ?C) = Inr (Naive iso_date)"
    by (simp add: field_column_def cell_of_def iso_to_datetime_dates iso_dates)
  have "\<exists>d m. preprocess_data iso_to_datetime \<lparr>jobs_df = DataFrame [], candidates_df = DataFrame ?C\<rparr> = Inr d
               \<and> calculate_metrics (19753 * day) d = Inr m"
    by (rule pipeline_ok [where f = iso_date]) (simp_all add: cols ta empty_frames)
  then obtain d m where
    d: "preprocess_data iso_to_datetime \<lparr>jobs_df = DataFrame [], candidates_df = DataFrame ?C\<rparr> = Inr d"
    and m: "calculate_metrics (19753 * day) d = Inr m" by blast
  from candidate_counts(2) [OF d m ne]
  have one: "m ''candidates_this_month'' = Some (MInt 1)"
    by (simp add: spec_date_added_def parsed_def ta cell_of_def coerce_def iso_dates day_def)
  have none: "length (filter
                (\<lambda>c. case spec_date_added iso_to_datetime ?C c of
                        Some t \<Rightarrow> 19753 * day - 30 * day \<le> t \<and> t \<le> 19753 * day
                      | None \<Rightarrow> False) ?C) = 0"
    by (simp add: spec_date_added_def parsed_def ta cell_of_def coerce_def iso_dates day_def)
  show ?thesis using one by (simp only: d sum.case m none) simp
qed

text \<open>
  C7 (as the code has it). Whenever preprocessing of the candidates returns, the weekly
  data of the timeline are the candidates grouped by week bucket, a week with the number
  of candidates added in it, with the weeks in ascending order and no week twice.
\<close>

theorem weekly_counts_chronological:
  assumes "preprocess_candidates td (DataFrame cands) = Inr c"
  shows "\<exists>w. create_timeline_chart \<lparr>jobs_df = J, candidates_df = c\<rparr> = Inr w
           \<and> w = spec_weekly_counts td cands
           \<and> sorted (map fst w) \<and> distinct (map fst w)"
  using timeline_of_preprocessed [OF assms, of J] sorted_spec_weekly_counts [of td cands]
  by simp

text \<open>
  Candidates added on Monday 2024-01-08, on an unparseable date, on Sunday 2024-01-07 and
  again on 2024-01-08: the week that ends on 7 January comes first with one candidate, then
  the week that begins on 8 January with two.
\<close>

theorem weekly_counts_chronological_witness:
  "\<exists>c. preprocess_candidates iso_to_datetime
          (DataFrame [[(''source'', JStr ''web''), (''dateadded'', JStr ''2024-01-08'')],
                      [(''source'', JStr ''web''), (''dateadded'', JStr ''bad'')],
                      [(''source'', JStr ''web''), (''dateadded'', JStr ''2024-01-07'')],
                      [(''source'', JStr ''ref''), (''dateadded'', JStr ''2024-01-08'')]]) = Inr c
       \<and> create_timeline_chart \<lparr>jobs_df = DataFrame [], candidates_df = c\<rparr> = Inr [(2818, 1), (2819, 2)]"
proof -
  let ?C = "[[(''source'', JStr ''web''), (''dateadded'', JStr ''2024-01-08'')],
             [(''source'', JStr ''web''), (''dateadded'', JStr ''bad'')],
             [(''source'', JStr ''web''), (''dateadded'', JStr ''2024-01-07'')],
             [(''source'', JStr ''ref''), (''dateadded'', JStr ''2024-01-08'')]]"
  have cols: "columns (DataFrame ?C) = [''source'', ''dateadded'']"
    by (simp add: DataFrame_def uniq_def)
  have ne: "\<not> is_empty (DataFrame ?C)"
    by (simp add: is_empty_def cols rows_DataFrame)
  have ta: "iso_to_datetime (field_column ''dateadded'' ?C) = Inr (Naive iso_date)"
    by (simp add: field_column_def cell_of_def iso_to_datetime_dates iso_dates)
  from preprocess_candidates_ok [of "DataFrame ?C" iso_to_datetime "Naive iso_date"] ne ta
  obtain c where c: "preprocess_candidates iso_to_datetime (DataFrame ?C) = Inr c"
    by (auto simp: cols column_DataFrame)
  have w: "spec_weekly_counts iso_to_datetime ?C = [(2818, 1), (2819, 2)]"
    by (simp add: spec_weekly_counts_def spec_week_def parsed_def ta cell_of_def coerce_def
          iso_dates week_of_def day_def map_filter_simps)
  from weekly_counts_chronological [OF c, of "DataFrame []"] c show ?thesis by (simp add: w)
qed

text \<open>
  C7 as stated fails for candidates whose dates carry different offsets from UTC: the
  conversion of the column raises, so preprocessing gives no candidates frame and there
  are no weekly counts.
\<close>

theorem weekly_counts_mixed_offsets_counterexample:
  "preprocess_candidates iso_to_datetime
     (DataFrame [[(''source'', JStr ''web''), (''dateadded'', JStr ''2024-01-01T00:00:00+00:00'')],
                 [(''source'', JStr ''web''), (''dateadded'', JStr ''2024-01-02T00:00:00+05:30'')]])
   = Inl (ValueError ''Mixed timezones detected'')"
proof -
  let ?C = "[[(''source'', JStr ''web''), (''dateadded'', JStr ''2024-01-01T00:00:00+00:00'')],
             [(''source'', JStr ''web''), (''dateadded'', JStr ''2024-01-02T00:00:00+05:30'')]]"
  have cols: "columns (DataFrame ?C) = [''source'', ''dateadded'']"
    by (simp add: DataFrame_def uniq_def)
  have ne: "\<not> is_empty (DataFrame ?C)"
    by (simp add: is_empty_def cols rows_DataFrame)
  have ta: "iso_to_datetime (field_column ''dateadded'' ?C) = Inl (ValueError ''Mixed timezones detected'')"
    by (simp add: field_column_def cell_of_def iso_to_datetime_instants iso_instants one_offset_def
          map_filter_simps)
  show ?thesis
    using ne by (simp add: preprocess_candidates_def convert_column_def cols column_DataFrame ta)
qed

lemma length_filter_eq_length:
  "length (filter P xs) = length xs \<longleftrightarrow> (\<forall>x\<in>set xs. P x)"
proof
  assume eq: "length (filter P xs) = length xs"
  show "\<forall>x\<in>set xs. P x"
  proof (rule ccontr)
    assume "\<not> (\<forall>x\<in>set xs. P x)"
    then obtain x where x: "x \<in> set xs" "\<not> P x" by blast
    have "length (filter P xs) < length xs" using x by (rule length_filter_less)
    with eq show False by simp
  qed
next
  assume "\<forall>x\<in>set xs. P x"
  then have "filter P xs = xs" by simp
  then show "length (filter P xs) = length xs" by simp
qed

text \<open>
  C10 (as the code has it). For a candidates frame that is not empty, whenever
  preprocessing and \<^verbatim>\<open>calculate_metrics\<close> return: total_candidates counts every
  record; the weekly counts exist and add up to the number of records whose date_added
  parses, which is at most the total, with equality exactly when every date_added parses;
  and candidates_this_month counts only among the records that parse.
\<close>

theorem total_counts_all_weekly_counts_parsed:
  assumes "preprocess_data td \<lparr>jobs_df = DataFrame jobs, candidates_df = DataFrame cands\<rparr> = Inr d"
    and "calculate_metrics now d = Inr m"
    and "\<not> is_empty (DataFrame cands)"
  shows "\<exists>w. create_timeline_chart d = Inr w
           \<and> m ''total_candidates'' = Some (MInt (int (length cands)))
           \<and> sum_list (map snd w) = length (filter (\<lambda>c. spec_date_added td cands c \<noteq> None) cands)
           \<and> sum_list (map snd w) \<le> length cands
           \<and> (sum_list (map snd w) = length cands \<longleftrightarrow> (\<forall>c\<in>set cands. spec_date_added td cands c \<noteq> None))
           \<and> (\<exists>n. m ''candidates_this_month'' = Some (MInt (int n))
                  \<and> n \<le> length (filter (\<lambda>c. spec_date_added td cands c \<noteq> None) cands))"
proof -
  from assms(1) obtain j c where j: "preprocess_jobs td (DataFrame jobs) = Inr j"
    and c: "preprocess_candidates td (DataFrame cands) = Inr c"
    and dd: "d = \<lparr>jobs_df = j, candidates_df = c\<rparr>"
    by (auto simp: preprocess_data_def split: sum.splits)
  let ?w = "spec_weekly_counts td cands"
  let ?parsed = "filter (\<lambda>c. spec_date_added td cands c \<noteq> None) cands"
  have w: "create_timeline_chart d = Inr ?w"
    unfolding dd by (rule timeline_of_preprocessed [OF c])
  have s: "sum_list (map snd ?w) = length ?parsed" by (rule sum_spec_weekly_counts)
  have le: "length ?parsed \<le> length cands" by simp
  have eq: "length ?parsed = length cands \<longleftrightarrow> (\<forall>c\<in>set cands. spec_date_added td cands c \<noteq> None)"
    by (rule length_filter_eq_length)
  let ?recent = "filter (\<lambda>c. case spec_date_added td cands c of Some t \<Rightarrow> now - 30 * day \<le> t | None \<Rightarrow> False) cands"
  have "?recent = filter (\<lambda>c. case spec_date_added td cands c of Some t \<Rightarrow> now - 30 * day \<le> t | None \<Rightarrow> False) ?parsed"
    by (auto intro: filter_cong split: option.splits)
  then have rl: "length ?recent \<le> length ?parsed"
    by (metis length_filter_le)
  from candidate_counts [OF assms] w s le eq rl show ?thesis by auto
qed

text \<open>
  Three candidates, one with an unparseable date: total_candidates is 3 and the weekly
  counts add up to 2.
\<close>

theorem total_counts_all_weekly_counts_parsed_witness:
  "\<exists>d m w. preprocess_data iso_to_datetime
              \<lparr>jobs_df = DataFrame [],
               candidates_df = DataFrame
                 [[(''source'', JStr ''web''), (''dateadded'', JStr ''2024-01-09'')],
                  [(''source'', JStr ''web''), (''dateadded'', JStr ''bad'')],
                  [(''source'', JStr ''web''), (''dateadded'', JStr ''2024-01-03'')]]\<rparr> = Inr d
         \<and> calculate_metrics (19753 * day) d = Inr m
         \<and> create_timeline_chart d = Inr w
         \<and> m ''total_candidates'' = Some (MInt 3)
         \<and> sum_list (map snd w) = 2"
proof -
  let ?C = "[[(''source'', JStr ''web''), (''dateadded'', JStr ''2024-01-09'')],
             [(''source'', JStr ''web''), (''dateadded'', JStr ''bad'')],
             [(''source'', JStr ''web''), (''dateadded'', JStr ''2024-01-03'')]]"
  have cols: "columns (DataFrame ?C) = [''source'', ''dateadded'']"
    by (simp add: DataFrame_def uniq_def)
  have ne: "\<not> is_empty (DataFrame ?C)"
    by (simp add: is_empty_def cols rows_DataFrame)
  have ta: "iso_to_datetime (field_column ''dateadded'' ?C) = Inr (Naive iso_date)"
    by (simp add: field_column_def cell_of_def iso_to_datetime_dates iso_dates)
  have "\<exists>d m. preprocess_data iso_to_datetime \<lparr>jobs_df = DataFrame [], candidates_df = DataFrame ?C\<rparr> = Inr d
               \<and> calculate_metrics (19753 * day) d = Inr m"
    by (rule pipeline_ok [where f = iso_date]) (simp_all add: cols ta empty_frames)
  then obtain d m where
    d: "preprocess_data iso_to_datetime \<lparr>jobs_df = DataFrame [], candidates_df = DataFrame ?C\<rparr> = Inr d"
    and m: "calculate_metrics (19753 * day) d = Inr m" by blast
  from total_counts_all_weekly_counts_parsed [OF d m ne] obtain w where
    "create_timeline_chart d = Inr w"
    "m ''total_candidates'' = Some (MInt (int (length ?C)))"
    "sum_list (map snd w) = length (filter (\<lambda>c. spec_date_added iso_to_datetime ?C c \<noteq> None) ?C)"
    by blast
  then have "create_timeline_chart d = Inr w \<and> m ''total_candidates'' = Some (MInt 3)
             \<and> sum_list (map snd w) = 2"
    by (simp add: spec_date_added_def parsed_def ta cell_of_def coerce_def iso_dates)
  with d m show ?thesis by blast
qed

text \<open>
  C10 as stated fails for a candidate whose date_added carries an offset from UTC:
  preprocessing returns and the timeline counts the candidate in its week, but the
  comparison of the timezone-aware dates with "now" raises TypeError, so
  \<^verbatim>\<open>calculate_metrics\<close> gives neither total_candidates nor candidates_this_month.
\<close>

theorem total_candidates_timezone_counterexample:
  "(case preprocess_data iso_to_datetime
           \<lparr>jobs_df = DataFrame [],
            candidates_df = DataFrame
              [[(''source'', JStr ''web''), (''dateadded'', JStr ''2024-01-01T00:00:00+00:00'')]]\<rparr> of
      Inl e \<Rightarrow> False
    | Inr d \<Rightarrow>
        create_timeline_chart d = Inr [(2818, 1)]
        \<and> calculate_metrics (19753 * day) d
            = Inl (TypeError ''Invalid comparison between tz-aware dtype and datetime''))"
proof -
  let ?C = "[[(''source'', JStr ''web''), (''dateadded'', JStr ''2024-01-01T00:00:00+00:00'')]]"
  have cols: "columns (DataFrame ?C) = [''source'', ''dateadded'']"
    by (simp add: DataFrame_def uniq_def)
  have ne: "\<not> is_empty (DataFrame ?C)"
    by (simp add: is_empty_def cols rows_DataFrame)
  have ta: "iso_to_datetime (field_column ''dateadded'' ?C) = Inr (Aware iso_instant)"
    by (simp add: field_column_def cell_of_def iso_to_datetime_instants iso_instants one_offset_def
          map_filter_simps)
  from preprocess_candidates_ok [of "DataFrame ?C" iso_to_datetime "Aware iso_instant"] ne ta
  obtain c where c: "preprocess_candidates iso_to_datetime (DataFrame ?C) = Inr c"
    and r: "rows c = map (candidate_row (Aware iso_instant)) (rows (DataFrame ?C))"
    and cs: "set (columns c) = insert ''week'' (insert ''month'' (set (columns (DataFrame ?C))))"
    by (auto simp: cols column_DataFrame)
  have d: "preprocess_data iso_to_datetime \<lparr>jobs_df = DataFrame [], candidates_df = DataFrame ?C\<rparr>
             = Inr \<lparr>jobs_df = DataFrame [], candidates_df = c\<rparr>"
    by (simp add: preprocess_data_def preprocess_empty empty_frames c)
  have "spec_weekly_counts iso_to_datetime ?C = [(2818, 1)]"
    by (simp add: spec_weekly_counts_def spec_week_def parsed_def ta cell_of_def coerce_def
          iso_instants week_of_def day_def map_filter_simps)
  with timeline_of_preprocessed [OF c, of "DataFrame []"]
  have w: "create_timeline_chart \<lparr>jobs_df = DataFrame [], candidates_df = c\<rparr> = Inr [(2818, 1)]"
    by simp
  from cs have "''week'' \<in> set (columns c)" by simp
  with r have nec: "\<not> is_empty c" using ne by (rule not_empty_rows)
  have aw: "aware (map (\<lambda>r. r ''dateadded'') (rows c))"
    by (simp add: r rows_DataFrame candidate_row_def cell_of_def coerce_def iso_instants aware_def)
  from cs have "''dateadded'' \<in> set (columns c)" by (simp add: cols)
  with aw nec have m: "calculate_metrics (19753 * day) \<lparr>jobs_df = DataFrame [], candidates_df = c\<rparr>
             = Inl (TypeError ''Invalid comparison between tz-aware dtype and datetime'')"
    by (simp add: calculate_metrics_def empty_frames candidate_metrics_def getitem_def)
  show ?thesis by (simp only: d sum.case w m)
qed

section \<open>Jobs by position\<close>

lemma strs_subset: "s \<in> set (strs col) \<longleftrightarrow> Str s \<in> set col"
  by (induction col rule: strs.induct) auto

lemma set_groupby_keys: "set (groupby_keys col) = {s. Str s \<in> set col}"
  by (simp add: groupby_keys_def set_eq_iff strs_subset)

lemma sorted_groupby_keys: "sorted (groupby_keys col)" "distinct (groupby_keys col)"
  by (simp_all add: groupby_keys_def)

lemma group_mean_explicit:
  "group_mean (map (\<lambda>r. r ''days_to_fill'') rs)
     = (let ds = List.map_filter days_defined rs in
        if ds = [] then None else Some (of_int (sum_list ds) / of_nat (length ds)))"
proof -
  have "nums (map (\<lambda>r. r ''days_to_fill'') rs) = List.map_filter days_defined rs"
    by (rule nums_map) (simp add: days_defined_def)
  then show ?thesis by (simp add: group_mean_def mean_def Let_def)
qed

text \<open>
  C3 (as the code has it). For a jobs frame that is empty or has the columns the chart
  reads, \<^verbatim>\<open>create_position_metrics_chart\<close> returns the jobs grouped by title, jobs
  without a title left out: the groups come in ascending order of the title, no title
  twice, at most 15 of them and all of them when there are at most 15 titles; each row
  carries the number of ids and the number of open jobs of the jobs with its title, and
  the arithmetic mean of their days to fill, taken over the jobs that have them, which is
  missing when none has.
\<close>

theorem position_metrics_grouped_by_title:
  assumes "is_empty (jobs_df self)
           \<or> set [''title'', ''id'', ''days_to_fill'', ''status''] \<subseteq> set (columns (jobs_df self))"
  shows "\<exists>t. create_position_metrics_chart self = Inr t
           \<and> sorted (map Position t) \<and> distinct (map Position t)
           \<and> (if is_empty (jobs_df self) then t = []
               else length t = min 15 (card {s. Str s \<in> set (map (\<lambda>r. r ''title'') (rows (jobs_df self)))}))
           \<and> (\<forall>p\<in>set t.
                 Str (Position p) \<in> set (map (\<lambda>r. r ''title'') (rows (jobs_df self)))
                 \<and> Total_Jobs p
                     = length (filter (\<lambda>r. r ''title'' = Str (Position p) \<and> r ''id'' \<noteq> NA)
                                (rows (jobs_df self)))
                 \<and> Open_Jobs p
                     = length (filter (\<lambda>r. r ''title'' = Str (Position p) \<and> r ''status'' = Str ''open'')
                                (rows (jobs_df self)))
                 \<and> Avg_Days_to_Fill p
                     = (let ds = List.map_filter days_defined
                                   (filter (\<lambda>r. r ''title'' = Str (Position p)) (rows (jobs_df self)))
                        in if ds = [] then None
                           else Some (of_int (sum_list ds) / of_nat (length ds))))"
proof (cases "is_empty (jobs_df self)")
  case True
  then show ?thesis
    by (simp add: create_position_metrics_chart_def)
next
  case False
  let ?df = "jobs_df self"
  let ?col = "map (\<lambda>r. r ''title'') (rows ?df)"
  let ?ks = "groupby_keys ?col"
  let ?mk = "\<lambda>k. let g = filter (\<lambda>r. r ''title'' = Str k) (rows ?df) in
                 \<lparr>Position = k,
                  Total_Jobs = count (map (\<lambda>r. r ''id'') g),
                  Avg_Days_to_Fill = group_mean (map (\<lambda>r. r ''days_to_fill'') g),
                  Open_Jobs = length (filter (\<lambda>c. c = Str ''open'') (map (\<lambda>r. r ''status'') g))\<rparr>"
  let ?t = "take 15 (map ?mk ?ks)"
  let ?avg = "\<lambda>p. let ds = List.map_filter days_defined
                              (filter (\<lambda>r. r ''title'' = Str (Position p)) (rows ?df))
                   in if ds = [] then None else Some (of_int (sum_list ds) / of_nat (length ds))"
  from False assms have cols: "''title'' \<in> set (columns ?df)" "''id'' \<in> set (columns ?df)"
    "''days_to_fill'' \<in> set (columns ?df)" "''status'' \<in> set (columns ?df)" by simp_all
  have res: "create_position_metrics_chart self = Inr ?t"
    using False cols
    by (simp add: create_position_metrics_chart_def getitem_def missing_columns_def Let_def)
  have pos: "map Position ?t = take 15 ?ks"
    by (simp add: take_map o_def Let_def)
  have s: "sorted (map Position ?t)"
    unfolding pos using sorted_groupby_keys(1) by (rule sorted_wrt_take)
  have d: "distinct (map Position ?t)"
    unfolding pos using sorted_groupby_keys(2) by (rule distinct_take)
  have "length ?ks = card (set ?ks)"
    using sorted_groupby_keys(2) [of ?col] by (simp add: distinct_card)
  then have "length ?ks = card {s. Str s \<in> set ?col}" by (simp only: set_groupby_keys)
  then have len: "length ?t = min 15 (card {s. Str s \<in> set ?col})"
    by (simp add: min.commute)
  have rows: "Str (Position p) \<in> set ?col
        \<and> Total_Jobs p = length (filter (\<lambda>r. r ''title'' = Str (Position p) \<and> r ''id'' \<noteq> NA) (rows ?df))
        \<and> Open_Jobs p
            = length (filter (\<lambda>r. r ''title'' = Str (Position p) \<and> r ''status'' = Str ''open'') (rows ?df))
        \<and> Avg_Days_to_Fill p = ?avg p"
    if "p \<in> set ?t" for p
  proof -
    from that have "p \<in> set (map ?mk ?ks)" by (rule in_set_takeD)
    then obtain k where k: "k \<in> set ?ks" and p: "p = ?mk k" by auto
    from k have "Str k \<in> set ?col" by (simp only: set_groupby_keys mem_Collect_eq)
    then show ?thesis
      unfolding p by (simp add: Let_def count_def o_def conj_commute group_mean_explicit [unfolded Let_def])
  qed
  show ?thesis
  proof (intro exI conjI)
    show "create_position_metrics_chart self = Inr ?t" by (rule res)
    show "sorted (map Position ?t)" by (rule s)
    show "distinct (map Position ?t)" by (rule d)
    show "if is_empty ?df then ?t = [] else length ?t = min 15 (card {s. Str s \<in> set ?col})"
      using False len by simp
    show "\<forall>p\<in>set ?t. Str (Position p) \<in> set ?col
        \<and> Total_Jobs p = length (filter (\<lambda>r. r ''title'' = Str (Position p) \<and> r ''id'' \<noteq> NA) (rows ?df))
        \<and> Open_Jobs p
            = length (filter (\<lambda>r. r ''title'' = Str (Position p) \<and> r ''status'' = Str ''open'') (rows ?df))
        \<and> Avg_Days_to_Fill p = ?avg p"
      using rows by blast
  qed
qed

lemma preprocess_jobs_naive:
  assumes "\<not> is_empty (DataFrame jobs)"
    and "''dateposted'' \<in> set (columns (DataFrame jobs))"
    and "''dateclosed'' \<in> set (columns (DataFrame jobs))"
    and "td (field_column ''dateposted'' jobs) = Inr (Naive f)"
    and "td (field_column ''dateclosed'' jobs) = Inr (Naive g)"
  shows "\<exists>j. preprocess_jobs td (DataFrame jobs) = Inr j
           \<and> rows j = map (job_row (Naive f) (Naive g)) (rows (DataFrame jobs))
           \<and> set (columns j) = insert ''days_to_fill'' (set (columns (DataFrame jobs)))
           \<and> \<not> is_empty j"
proof -
  let ?J = "DataFrame jobs"
  have aw: "aware (map (\<lambda>r. coerce (Naive g) (r ''dateclosed'')) (rows ?J))
              = aware (map (\<lambda>r. coerce (Naive f) (r ''dateposted'')) (rows ?J))"
    using naive_not_aware [of g "map (\<lambda>r. r ''dateclosed'') (rows ?J)"]
      naive_not_aware [of f "map (\<lambda>r. r ''dateposted'') (rows ?J)"]
    by (simp add: o_def)
  from preprocess_jobs_ok [of ?J td "Naive f" "Naive g"] assms aw obtain j where
    j: "preprocess_jobs td ?J = Inr j" and r: "rows j = map (job_row (Naive f) (Naive g)) (rows ?J)"
    and c: "set (columns j) = insert ''days_to_fill'' (set (columns ?J))"
    by (auto simp: column_DataFrame)
  from c have "''days_to_fill'' \<in> set (columns j)" by simp
  with r have "\<not> is_empty j" using assms(1) by (rule not_empty_rows)
  with j r c show ?thesis by blast
qed

lemma position_chart_positions:
  assumes "\<not> is_empty (jobs_df self)"
    and "set [''title'', ''id'', ''days_to_fill'', ''status''] \<subseteq> set (columns (jobs_df self))"
  shows "\<exists>t. create_position_metrics_chart self = Inr t
           \<and> map Position t = take 15 (groupby_keys (map (\<lambda>r. r ''title'') (rows (jobs_df self))))"
  using assms
  by (simp add: create_position_metrics_chart_def getitem_def missing_columns_def Let_def take_map o_def)

lemma positions_of_jobs:
  assumes "jobs \<noteq> []"
    and "set [''title'', ''id'', ''status'', ''dateposted'', ''dateclosed''] \<subseteq> set (columns (DataFrame jobs))"
    and "td (field_column ''dateposted'' jobs) = Inr (Naive f)"
    and "td (field_column ''dateclosed'' jobs) = Inr (Naive g)"
  shows "\<exists>j t. preprocess_jobs td (DataFrame jobs) = Inr j
           \<and> create_position_metrics_chart \<lparr>jobs_df = j, candidates_df = C\<rparr> = Inr t
           \<and> map Position t = take 15 (groupby_keys (map (\<lambda>d. cell_of (map_of d ''title'')) jobs))"
proof -
  let ?J = "DataFrame jobs"
  from assms(2) have "columns ?J \<noteq> []" by auto
  with assms(1) have ne: "\<not> is_empty ?J" by (simp add: is_empty_def rows_DataFrame)
  from assms(2) have dp: "''dateposted'' \<in> set (columns ?J)" and dc: "''dateclosed'' \<in> set (columns ?J)"
    by simp_all
  from preprocess_jobs_naive [OF ne dp dc assms(3,4)] obtain j where
    j: "preprocess_jobs td ?J = Inr j" and r: "rows j = map (job_row (Naive f) (Naive g)) (rows ?J)"
    and c: "set (columns j) = insert ''days_to_fill'' (set (columns ?J))"
    and nej: "\<not> is_empty j" by blast
  from nej have ne': "\<not> is_empty (jobs_df \<lparr>jobs_df = j, candidates_df = C\<rparr>)" by simp
  from c assms(2)
  have cols: "set [''title'', ''id'', ''days_to_fill'', ''status'']
                \<subseteq> set (columns (jobs_df \<lparr>jobs_df = j, candidates_df = C\<rparr>))" by simp
  have tc: "map (\<lambda>r. r ''title'') (rows j) = map (\<lambda>d. cell_of (map_of d ''title'')) jobs"
    by (simp add: r rows_DataFrame job_row_def)
  from position_chart_positions [OF ne' cols] obtain t where
    "create_position_metrics_chart \<lparr>jobs_df = j, candidates_df = C\<rparr> = Inr t"
    "map Position t = take 15 (groupby_keys (map (\<lambda>r. r ''title'') (rows j)))" by auto
  with j show ?thesis by (simp add: tc)
qed

text \<open>
  C3 as stated fails on seventeen jobs titled p, p, o, n, ..., b, a in this order: the
  title p comes first in the input and has the highest count, yet the positions returned
  are a to o in ascending order, without p.
\<close>

theorem position_metrics_order_counterexample:
  "(case preprocess_jobs iso_to_datetime (DataFrame
     [[(''id'', JStr ''1''), (''title'', JStr ''p''), (''status'', JStr ''open''), (''dateposted'', JStr ''2024-01-01''), (''dateclosed'', JNull)],
      [(''id'', JStr ''2''), (''title'', JStr ''p''), (''status'', JStr ''open''), (''dateposted'', JStr ''2024-01-01''), (''dateclosed'', JNull)],
      [(''id'', JStr ''3''), (''title'', JStr ''o''), (''status'', JStr ''open''), (''dateposted'', JStr ''2024-01-01''), (''dateclosed'', JNull)],
      [(''id'', JStr ''4''), (''title'', JStr ''n''), (''status'', JStr ''open''), (''dateposted'', JStr ''2024-01-01''), (''dateclosed'', JNull)],
      [(''id'', JStr ''5''), (''title'', JStr ''m''), (''status'', JStr ''open''), (''dateposted'', JStr ''2024-01-01''), (''dateclosed'', JNull)],
      [(''id'', JStr ''6''), (''title'', JStr ''l''), (''status'', JStr ''open''), (''dateposted'', JStr ''2024-01-01''), (''dateclosed'', JNull)],
      [(''id'', JStr ''7''), (''title'', JStr ''k''), (''status'', JStr ''open''), (''dateposted'', JStr ''2024-01-01''), (''dateclosed'', JNull)],
      [(''id'', JStr ''8''), (''title'', JStr ''j''), (''status'', JStr ''open''), (''dateposted'', JStr ''2024-01-01''), (''dateclosed'', JNull)],
      [(''id'', JStr ''9''), (''title'', JStr ''i''), (''status'', JStr ''open''), (''dateposted'', JStr ''2024-01-01''), (''dateclosed'', JNull)],
      [(''id'', JStr ''10''), (''title'', JStr ''h''), (''status'', JStr ''open''), (''dateposted'', JStr ''2024-01-01''), (''dateclosed'', JNull)],
      [(''id'', JStr ''11''), (''title'', JStr ''g''), (''status'', JStr ''open''), (''dateposted'', JStr ''2024-01-01''), (''dateclosed'', JNull)],
      [(''id'', JStr ''12''), (''title'', JStr ''f''), (''status'', JStr ''open''), (''dateposted'', JStr ''2024-01-01''), (''dateclosed'', JNull)],
      [(''id'', JStr ''13''), (''title'', JStr ''e''), (''status'', JStr ''open''), (''dateposted'', JStr ''2024-01-01''), (''dateclosed'', JNull)],
      [(''id'', JStr ''14''), (''title'', JStr ''d''), (''status'', JStr ''open''), (''dateposted'', JStr ''2024-01-01''), (''dateclosed'', JNull)],
      [(''id'', JStr ''15''), (''title'', JStr ''c''), (''status'', JStr ''open''), (''dateposted'', JStr ''2024-01-01''), (''dateclosed'', JNull)],
      [(''id'', JStr ''16''), (''title'', JStr ''b''), (''status'', JStr ''open''), (''dateposted'', JStr ''2024-01-01''), (''dateclosed'', JNull)],
      [(''id'', JStr ''17''), (''title'', JStr ''a''), (''status'', JStr ''open''), (''dateposted'', JStr ''2024-01-01''), (''dateclosed'', JNull)]]) of
      Inl e \<Rightarrow> []
    | Inr j \<Rightarrow>
        (case create_position_metrics_chart \<lparr>jobs_df = j, candidates_df = DataFrame []\<rparr> of
           Inl e \<Rightarrow> []
         | Inr t \<Rightarrow> map Position t))
   = [''a'', ''b'', ''c'', ''d'', ''e'', ''f'', ''g'', ''h'', ''i'', ''j'', ''k'', ''l'', ''m'', ''n'', ''o'']"
proof -
  let ?J = "[[(''id'', JStr ''1''), (''title'', JStr ''p''), (''status'', JStr ''open''), (''dateposted'', JStr ''2024-01-01''), (''dateclosed'', JNull)],
      [(''id'', JStr ''2''), (''title'', JStr ''p''), (''status'', JStr ''open''), (''dateposted'', JStr ''2024-01-01''), (''dateclosed'', JNull)],
      [(''id'', JStr ''3''), (''title'', JStr ''o''), (''status'', JStr ''open''), (''dateposted'', JStr ''2024-01-01''), (''dateclosed'', JNull)],
      [(''id'', JStr ''4''), (''title'', JStr ''n''), (''status'', JStr ''open''), (''dateposted'', JStr ''2024-01-01''), (''dateclosed'', JNull)],
      [(''id'', JStr ''5''), (''title'', JStr ''m''), (''status'', JStr ''open''), (''dateposted'', JStr ''2024-01-01''), (''dateclosed'', JNull)],
      [(''id'', JStr ''6''), (''title'', JStr ''l''), (''status'', JStr ''open''), (''dateposted'', JStr ''2024-01-01''), (''dateclosed'', JNull)],
      [(''id'', JStr ''7''), (''title'', JStr ''k''), (''status'', JStr ''open''), (''dateposted'', JStr ''2024-01-01''), (''dateclosed'', JNull)],
      [(''id'', JStr ''8''), (''title'', JStr ''j''), (''status'', JStr ''open''), (''dateposted'', JStr ''2024-01-01''), (''dateclosed'', JNull)],
      [(''id'', JStr ''9''), (''title'', JStr ''i''), (''status'', JStr ''open''), (''dateposted'', JStr ''2024-01-01''), (''dateclosed'', JNull)],
      [(''id'', JStr ''10''), (''title'', JStr ''h''), (''status'', JStr ''open''), (''dateposted'', JStr ''2024-01-01''), (''dateclosed'', JNull)],
      [(''id'', JStr ''11''), (''title'', JStr ''g''), (''status'', JStr ''open''), (''dateposted'', JStr ''2024-01-01''), (''dateclosed'', JNull)],
      [(''id'', JStr ''12''), (''title'', JStr ''f''), (''status'', JStr ''open''), (''dateposted'', JStr ''2024-01-01''), (''dateclosed'', JNull)],
      [(''id'', JStr ''13''), (''title'', JStr ''e''), (''status'', JStr ''open''), (''dateposted'', JStr ''2024-01-01''), (''dateclosed'', JNull)],
      [(''id'', JStr ''14''), (''title'', JStr ''d''), (''status'', JStr ''open''), (''dateposted'', JStr ''2024-01-01''), (''dateclosed'', JNull)],
      [(''id'', JStr ''15''), (''title'', JStr ''c''), (''status'', JStr ''open''), (''dateposted'', JStr ''2024-01-01''), (''dateclosed'', JNull)],
      [(''id'', JStr ''16''), (''title'', JStr ''b''), (''status'', JStr ''open''), (''dateposted'', JStr ''2024-01-01''), (''dateclosed'', JNull)],
      [(''id'', JStr ''17''), (''title'', JStr ''a''), (''status'', JStr ''open''), (''dateposted'', JStr ''2024-01-01''), (''dateclosed'', JNull)]]"
  have ne: "?J \<noteq> []" by simp
  have cols: "set [''title'', ''id'', ''status'', ''dateposted'', ''dateclosed''] \<subseteq> set (columns (DataFrame ?J))"
    by (simp add: DataFrame_def uniq_def)
  have keys: "take 15 (groupby_keys (map (\<lambda>d. cell_of (map_of d ''title'')) ?J)) = [''a'', ''b'', ''c'', ''d'', ''e'', ''f'', ''g'', ''h'', ''i'', ''j'', ''k'', ''l'', ''m'', ''n'', ''o'']"
    by (simp add: groupby_keys_def cell_of_def less_eq_char_def less_char_def)
  have tp: "iso_to_datetime (field_column ''dateposted'' ?J) = Inr (Naive iso_date)"
    by (simp add: field_column_def cell_of_def iso_to_datetime_dates iso_dates)
  have tc: "iso_to_datetime (field_column ''dateclosed'' ?J) = Inr (Naive iso_date)"
    by (simp add: field_column_def cell_of_def iso_to_datetime_dates)
  from positions_of_jobs [OF ne cols tp tc, of "DataFrame []"] obtain j t where
    "preprocess_jobs iso_to_datetime (DataFrame ?J) = Inr j"
    "create_position_metrics_chart \<lparr>jobs_df = j, candidates_df = DataFrame []\<rparr> = Inr t"
    "map Position t = take 15 (groupby_keys (map (\<lambda>d. cell_of (map_of d ''title'')) ?J))" by blast
  then show ?thesis by (simp only: sum.case keys)
qed

text \<open>
  Three jobs: one titled b, open and not closed, and two titled a, closed after 10 and
  after 4 days. The table has the row of a first, with 2 jobs, none open and the mean 7,
  then the row of b, with 1 job, open, and no mean.
\<close>

theorem position_metrics_grouped_by_title_witness:
  "\<exists>j t. preprocess_jobs iso_to_datetime
            (DataFrame
               [[(''id'', JStr ''1''), (''title'', JStr ''b''), (''status'', JStr ''open''),
                 (''dateposted'', JStr ''2024-01-01''), (''dateclosed'', JNull)],
                [(''id'', JStr ''2''), (''title'', JStr ''a''), (''status'', JStr ''closed''),
                 (''dateposted'', JStr ''2024-01-01''), (''dateclosed'', JStr ''2024-01-11'')],
                [(''id'', JStr ''3''), (''title'', JStr ''a''), (''status'', JStr ''closed''),
                 (''dateposted'', JStr ''2024-01-01''), (''dateclosed'', JStr ''2024-01-05'')]]) = Inr j
         \<and> create_position_metrics_chart \<lparr>jobs_df = j, candidates_df = DataFrame []\<rparr> = Inr t
         \<and> map Position t = [''a'', ''b'']
         \<and> map Total_Jobs t = [2, 1]
         \<and> map Open_Jobs t = [0, 1]
         \<and> map Avg_Days_to_Fill t = [Some 7, None]"
proof -
  let ?jobs = "[[(''id'', JStr ''1''), (''title'', JStr ''b''), (''status'', JStr ''open''),
                 (''dateposted'', JStr ''2024-01-01''), (''dateclosed'', JNull)],
                [(''id'', JStr ''2''), (''title'', JStr ''a''), (''status'', JStr ''closed''),
                 (''dateposted'', JStr ''2024-01-01''), (''dateclosed'', JStr ''2024-01-11'')],
                [(''id'', JStr ''3''), (''title'', JStr ''a''), (''status'', JStr ''closed''),
                 (''dateposted'', JStr ''2024-01-01''), (''dateclosed'', JStr ''2024-01-05'')]]"
  let ?J = "DataFrame ?jobs"
  have cs: "columns ?J = [''id'', ''title'', ''status'', ''dateposted'', ''dateclosed'']"
    by (simp add: DataFrame_def uniq_def)
  have ne: "\<not> is_empty ?J" by (simp add: is_empty_def cs rows_DataFrame)
  have dp: "''dateposted'' \<in> set (columns ?J)" and dc: "''dateclosed'' \<in> set (columns ?J)"
    by (simp_all add: cs)
  have tp: "iso_to_datetime (field_column ''dateposted'' ?jobs) = Inr (Naive iso_date)"
    by (simp add: field_column_def cell_of_def iso_to_datetime_dates iso_dates)
  have tc: "iso_to_datetime (field_column ''dateclosed'' ?jobs) = Inr (Naive iso_date)"
    by (simp add: field_column_def cell_of_def iso_to_datetime_dates iso_dates)
  from preprocess_jobs_naive [OF ne dp dc tp tc] obtain j where
    j: "preprocess_jobs iso_to_datetime ?J = Inr j"
    and r: "rows j = map (job_row (Naive iso_date) (Naive iso_date)) (rows ?J)"
    and c: "set (columns j) = insert ''days_to_fill'' (set (columns ?J))"
    and nej: "\<not> is_empty j" by blast
  let ?self = "\<lparr>jobs_df = j, candidates_df = DataFrame []\<rparr>"
  have cols: "is_empty (jobs_df ?self)
      \<or> set [''title'', ''id'', ''days_to_fill'', ''status''] \<subseteq> set (columns (jobs_df ?self))"
    by (simp add: c cs)
  have titles: "map (\<lambda>r. r ''title'') (rows j) = [Str ''b'', Str ''a'', Str ''a'']"
    by (simp add: r rows_DataFrame job_row_def cell_of_def)
  have card: "card {s. Str s \<in> set [Str ''b'', Str ''a'', Str ''a'']} = 2"
    by (simp add: Collect_disj_eq)
  have ord: "\<not> ''b'' \<le> ''a''" by (simp add: less_eq_char_def less_char_def)
  have ja: "length (filter (\<lambda>r. r ''title'' = Str ''a'' \<and> r ''id'' \<noteq> NA) (rows j)) = 2"
    and jb: "length (filter (\<lambda>r. r ''title'' = Str ''b'' \<and> r ''id'' \<noteq> NA) (rows j)) = 1"
    and oa: "length (filter (\<lambda>r. r ''title'' = Str ''a'' \<and> r ''status'' = Str ''open'') (rows j)) = 0"
    and ob: "length (filter (\<lambda>r. r ''title'' = Str ''b'' \<and> r ''status'' = Str ''open'') (rows j)) = 1"
    by (simp_all add: r rows_DataFrame job_row_def cell_of_def)
  have da: "List.map_filter days_defined (filter (\<lambda>r. r ''title'' = Str ''a'') (rows j)) = [10, 4]"
    and db: "List.map_filter days_defined (filter (\<lambda>r. r ''title'' = Str ''b'') (rows j)) = []"
    by (simp_all add: r rows_DataFrame job_row_def cell_of_def map_filter_simps days_defined_def
          coerce_def iso_dates day_def)
  from position_metrics_grouped_by_title [OF cols] nej obtain t where
    res: "create_position_metrics_chart ?self = Inr t"
    and st: "sorted (map Position t)" and dt: "distinct (map Position t)"
    and len: "length t = min 15 (card {s. Str s \<in> set (map (\<lambda>r. r ''title'') (rows j))})"
    and all: "\<forall>p\<in>set t.
                 Str (Position p) \<in> set (map (\<lambda>r. r ''title'') (rows j))
                 \<and> Total_Jobs p
                     = length (filter (\<lambda>r. r ''title'' = Str (Position p) \<and> r ''id'' \<noteq> NA) (rows j))
                 \<and> Open_Jobs p
                     = length (filter (\<lambda>r. r ''title'' = Str (Position p) \<and> r ''status'' = Str ''open'')
                                (rows j))
                 \<and> Avg_Days_to_Fill p
                     = (let ds = List.map_filter days_defined
                                   (filter (\<lambda>r. r ''title'' = Str (Position p)) (rows j))
                        in if ds = [] then None
                           else Some (of_int (sum_list ds) / of_nat (length ds)))"
    by auto
  from len have "length t = 2" by (simp only: titles card)
  then obtain p1 p2 where t: "t = [p1, p2]"
    by (cases t; cases "tl t") auto
  from all have m1: "Str (Position p1) \<in> set (map (\<lambda>r. r ''title'') (rows j))"
    and m2: "Str (Position p2) \<in> set (map (\<lambda>r. r ''title'') (rows j))"
    by (simp_all add: t)
  from m1 have k1: "Position p1 = ''a'' \<or> Position p1 = ''b''" by (simp only: titles) auto
  from m2 have k2: "Position p2 = ''a'' \<or> Position p2 = ''b''" by (simp only: titles) auto
  from st dt have "Position p1 \<le> Position p2" "Position p1 \<noteq> Position p2" by (simp_all add: t)
  with k1 k2 ord have pa: "Position p1 = ''a''" and pb: "Position p2 = ''b''" by auto
  from all have f1: "Total_Jobs p1 = 2 \<and> Open_Jobs p1 = 0 \<and> Avg_Days_to_Fill p1 = Some 7"
    by (simp add: t pa ja oa da)
  from all have f2: "Total_Jobs p2 = 1 \<and> Open_Jobs p2 = 1 \<and> Avg_Days_to_Fill p2 = None"
    by (simp add: t pb jb ob db)
  from j res pa pb f1 f2 show ?thesis by (simp add: t)
qed

section \<open>Recruiters\<close>

lemma map_of_map_key:
  "map_of (map (\<lambda>k. (k, f k)) ks) k = (if k \<in> set ks then Some (f k) else None)"
  by (induction ks) simp_all

lemma filter_no_key:
  assumes "Str k \<notin> set (map (\<lambda>r. r c) rs)"
  shows "filter (\<lambda>r. r c = Str k) rs = []"
  using assms by (induction rs) auto

lemma count_column_filter:
  "count (map (\<lambda>r. r c) (filter P rs)) = length (filter (\<lambda>r. P r \<and> r c \<noteq> NA) rs)"
  by (induction rs) (simp_all add: count_def)

lemma size_column:
  "length (filter (\<lambda>c. c = Str k) (map (\<lambda>r. r c) rs)) = length (filter (\<lambda>r. r c = Str k) rs)"
  by (induction rs) simp_all

lemma fillna0_merged_row:
  "fillna0 (k, map_of (recruiter_jobs J (map (\<lambda>r. r ''recruiter'') (rows J))) k,
               map_of (recruiter_candidates (map (\<lambda>r. r ''recruiter'') (rows C))) k)
     = spec_recruiter_row J C k"
proof -
  let ?jr = "map (\<lambda>r. r ''recruiter'') (rows J)" and ?cr = "map (\<lambda>r. r ''recruiter'') (rows C)"
  let ?g = "filter (\<lambda>r. r ''recruiter'' = Str k) (rows J)"
  let ?ds = "List.map_filter days_defined ?g"
  have l: "map_of (recruiter_jobs J ?jr) k
             = (if k \<in> set (groupby_keys ?jr)
                then Some (count (map (\<lambda>r. r ''id'') ?g), group_mean (map (\<lambda>r. r ''days_to_fill'') ?g))
                else None)"
    unfolding recruiter_jobs_def Let_def by (rule map_of_map_key)
  have r: "map_of (recruiter_candidates ?cr) k
             = (if k \<in> set (groupby_keys ?cr)
                then Some (length (filter (\<lambda>c. c = Str k) ?cr)) else None)"
    unfolding recruiter_candidates_def by (rule map_of_map_key)
  have gj: "?g = []" if "k \<notin> set (groupby_keys ?jr)"
  proof -
    from that have "Str k \<notin> set ?jr" by (simp add: set_groupby_keys)
    then show ?thesis by (rule filter_no_key)
  qed
  have gc: "filter (\<lambda>r. r ''recruiter'' = Str k) (rows C) = []" if "k \<notin> set (groupby_keys ?cr)"
  proof -
    from that have "Str k \<notin> set ?cr" by (simp add: set_groupby_keys)
    then show ?thesis by (rule filter_no_key)
  qed
  have cnt: "count (map (\<lambda>r. r ''id'') ?g)
               = length (filter (\<lambda>r. r ''recruiter'' = Str k \<and> r ''id'' \<noteq> NA) (rows J))"
    by (rule count_column_filter)
  have sz: "length (filter (\<lambda>c. c = Str k) ?cr) = length (filter (\<lambda>r. r ''recruiter'' = Str k) (rows C))"
    by (rule size_column)
  have jobs_part:
    "(case map_of (recruiter_jobs J ?jr) k of Some (n, _) \<Rightarrow> of_nat n | None \<Rightarrow> (0::rat))
       = of_nat (length (filter (\<lambda>r. r ''recruiter'' = Str k \<and> r ''id'' \<noteq> NA) (rows J)))"
  proof (cases "k \<in> set (groupby_keys ?jr)")
    case True
    then show ?thesis by (simp only: l if_True option.case prod.case cnt)
  next
    case False
    from gj [OF False] have "filter (\<lambda>r. r ''recruiter'' = Str k \<and> r ''id'' \<noteq> NA) (rows J) = []"
      by (simp add: filter_empty_conv)
    with False show ?thesis by (simp add: l)
  qed
  have days_part:
    "(case map_of (recruiter_jobs J ?jr) k of Some (_, Some a) \<Rightarrow> a | _ \<Rightarrow> (0::rat))
       = (if ?ds = [] then 0 else of_int (sum_list ?ds) / of_nat (length ?ds))"
  proof (cases "k \<in> set (groupby_keys ?jr)")
    case True
    then show ?thesis by (simp add: l group_mean_explicit Let_def)
  next
    case False
    with gj [OF False] show ?thesis by (simp add: l map_filter_simps)
  qed
  have cands_part:
    "(case map_of (recruiter_candidates ?cr) k of Some m \<Rightarrow> of_nat m | None \<Rightarrow> (0::rat))
       = of_nat (length (filter (\<lambda>r. r ''recruiter'' = Str k) (rows C)))"
  proof (cases "k \<in> set (groupby_keys ?cr)")
    case True
    then show ?thesis by (simp only: r if_True option.case sz)
  next
    case False
    with gc [OF False] show ?thesis by (simp add: r)
  qed
  show ?thesis
    unfolding fillna0_def spec_recruiter_row_def prod.case Let_def
    by (simp only: jobs_part days_part cands_part)
qed

lemma recruiter_job_keys:
  "map fst (recruiter_jobs J col) = groupby_keys col"
  by (simp add: recruiter_jobs_def o_def Let_def)

lemma recruiter_candidate_keys:
  "map fst (recruiter_candidates col) = groupby_keys col"
  by (simp add: recruiter_candidates_def o_def)

lemma merged_table:
  "map fillna0 (merge_outer (recruiter_jobs J (map (\<lambda>r. r ''recruiter'') (rows J)))
                            (recruiter_candidates (map (\<lambda>r. r ''recruiter'') (rows C))))
     = map (spec_recruiter_row J C)
           (sort (remdups (groupby_keys (map (\<lambda>r. r ''recruiter'') (rows J))
                           @ groupby_keys (map (\<lambda>r. r ''recruiter'') (rows C)))))"
  unfolding merge_outer_def map_map o_def fillna0_merged_row recruiter_job_keys
    recruiter_candidate_keys ..

lemma recruiter_chart_table:
  assumes "\<not> is_empty (jobs_df self)" and "\<not> is_empty (candidates_df self)"
    and "set [''recruiter'', ''id'', ''days_to_fill''] \<subseteq> set (columns (jobs_df self))"
    and "''recruiter'' \<in> set (columns (candidates_df self))"
  shows "create_recruiter_metrics_chart self
           = Inr (map (spec_recruiter_row (jobs_df self) (candidates_df self))
                    (take 10 (sort (remdups
                       (groupby_keys (map (\<lambda>r. r ''recruiter'') (rows (jobs_df self)))
                        @ groupby_keys (map (\<lambda>r. r ''recruiter'') (rows (candidates_df self))))))),
                  map (\<lambda>r. Total_Candidates r / (Recruiter_Jobs r + 1))
                    (map (spec_recruiter_row (jobs_df self) (candidates_df self))
                       (take 10 (sort (remdups
                          (groupby_keys (map (\<lambda>r. r ''recruiter'') (rows (jobs_df self)))
                           @ groupby_keys (map (\<lambda>r. r ''recruiter'') (rows (candidates_df self)))))))))"
proof -
  let ?J = "jobs_df self" and ?C = "candidates_df self"
  let ?jr = "map (\<lambda>r. r ''recruiter'') (rows ?J)" and ?cr = "map (\<lambda>r. r ''recruiter'') (rows ?C)"
  from assms(3) have cols: "''recruiter'' \<in> set (columns ?J)" "''id'' \<in> set (columns ?J)"
    "''days_to_fill'' \<in> set (columns ?J)" by simp_all
  have "create_recruiter_metrics_chart self
          = Inr (take 10 (map fillna0 (merge_outer (recruiter_jobs ?J ?jr) (recruiter_candidates ?cr))),
                 map (\<lambda>r. Total_Candidates r / (Recruiter_Jobs r + 1))
                   (take 10 (map fillna0 (merge_outer (recruiter_jobs ?J ?jr) (recruiter_candidates ?cr)))))"
    using assms(1,2,4) cols
    by (simp add: create_recruiter_metrics_chart_def getitem_def missing_columns_def Let_def)
  then show ?thesis by (simp only: merged_table take_map)
qed

lemma recruiter_of_spec_row: "Recruiter (spec_recruiter_row J C k) = k"
  by (simp add: spec_recruiter_row_def)

text \<open>
  C2 (as the code has it). For jobs and candidates frames that are not empty and have the
  columns the chart reads, \<^verbatim>\<open>create_recruiter_metrics_chart\<close> returns rows of the full
  outer join of the job aggregates and the candidate counts on the recruiter: the rows
  come in ascending order of the recruiter, no recruiter twice, at most 10 of them and
  all of them when either frame names at most 10 recruiters in all; the recruiter of a
  row is one of either frame, and the row counts the ids of its jobs and its candidates,
  zero on the side where it has none, with the arithmetic mean of the days to fill that
  its jobs have, zero without any; and the efficiency of every row is
  total_candidates / (total_jobs + 1).
\<close>

theorem recruiter_metrics_outer_join:
  assumes "\<not> is_empty (jobs_df self)" and "\<not> is_empty (candidates_df self)"
    and "set [''recruiter'', ''id'', ''days_to_fill''] \<subseteq> set (columns (jobs_df self))"
    and "''recruiter'' \<in> set (columns (candidates_df self))"
  shows "\<exists>tbl eff.
           create_recruiter_metrics_chart self = Inr (tbl, eff)
         \<and> sorted (map Recruiter tbl) \<and> distinct (map Recruiter tbl)
         \<and> length tbl
             = min 10 (card {k. Str k \<in> set (map (\<lambda>r. r ''recruiter'') (rows (jobs_df self)))
                                \<or> Str k \<in> set (map (\<lambda>r. r ''recruiter'') (rows (candidates_df self)))})
         \<and> (\<forall>r\<in>set tbl.
               (Str (Recruiter r) \<in> set (map (\<lambda>r. r ''recruiter'') (rows (jobs_df self)))
                \<or> Str (Recruiter r) \<in> set (map (\<lambda>r. r ''recruiter'') (rows (candidates_df self))))
               \<and> r = spec_recruiter_row (jobs_df self) (candidates_df self) (Recruiter r))
         \<and> eff = map (\<lambda>r. Total_Candidates r / (Recruiter_Jobs r + 1)) tbl"
proof -
  let ?J = "jobs_df self" and ?C = "candidates_df self"
  let ?jr = "map (\<lambda>r. r ''recruiter'') (rows ?J)" and ?cr = "map (\<lambda>r. r ''recruiter'') (rows ?C)"
  let ?keys = "sort (remdups (groupby_keys ?jr @ groupby_keys ?cr))"
  let ?tbl = "map (spec_recruiter_row ?J ?C) (take 10 ?keys)"
  have res: "create_recruiter_metrics_chart self
          = Inr (?tbl, map (\<lambda>r. Total_Candidates r / (Recruiter_Jobs r + 1)) ?tbl)"
    using assms by (rule recruiter_chart_table)
  have sk: "sorted ?keys" "distinct ?keys" by simp_all
  have set_keys: "set ?keys = {k. Str k \<in> set ?jr \<or> Str k \<in> set ?cr}"
    by (simp add: set_groupby_keys set_eq_iff)
  have rk: "map Recruiter ?tbl = take 10 ?keys"
    by (simp add: o_def recruiter_of_spec_row)
  have s: "sorted (map Recruiter ?tbl)"
    unfolding rk using sk(1) by (rule sorted_wrt_take)
  have d: "distinct (map Recruiter ?tbl)"
    unfolding rk using sk(2) by (rule distinct_take)
  have "length ?keys = card (set ?keys)" using sk(2) by (simp only: distinct_card)
  then have "length ?keys = card {k. Str k \<in> set ?jr \<or> Str k \<in> set ?cr}"
    by (simp only: set_keys)
  then have len: "length ?tbl = min 10 (card {k. Str k \<in> set ?jr \<or> Str k \<in> set ?cr})"
    by (simp add: min.commute)
  have rows: "(Str (Recruiter r) \<in> set ?jr \<or> Str (Recruiter r) \<in> set ?cr)
              \<and> r = spec_recruiter_row ?J ?C (Recruiter r)"
    if "r \<in> set ?tbl" for r
  proof -
    from that obtain k where k: "k \<in> set (take 10 ?keys)" and r: "r = spec_recruiter_row ?J ?C k"
      by auto
    from k have "k \<in> set ?keys" by (rule in_set_takeD)
    then have "Str k \<in> set ?jr \<or> Str k \<in> set ?cr" by (simp only: set_keys mem_Collect_eq)
    then show ?thesis by (simp add: r recruiter_of_spec_row)
  qed
  show ?thesis
  proof (intro exI conjI)
    show "create_recruiter_metrics_chart self
            = Inr (?tbl, map (\<lambda>r. Total_Candidates r / (Recruiter_Jobs r + 1)) ?tbl)" by (rule res)
    show "sorted (map Recruiter ?tbl)" by (rule s)
    show "distinct (map Recruiter ?tbl)" by (rule d)
    show "length ?tbl = min 10 (card {k. Str k \<in> set ?jr \<or> Str k \<in> set ?cr})" by (rule len)
    show "\<forall>r\<in>set ?tbl. (Str (Recruiter r) \<in> set ?jr \<or> Str (Recruiter r) \<in> set ?cr)
              \<and> r = spec_recruiter_row ?J ?C (Recruiter r)"
      using rows by blast
    show "map (\<lambda>r. Total_Candidates r / (Recruiter_Jobs r + 1)) ?tbl
            = map (\<lambda>r. Total_Candidates r / (Recruiter_Jobs r + 1)) ?tbl" ..
  qed
qed

lemma preprocess_data_naive:
  assumes "\<not> is_empty (DataFrame jobs)"
    and "''dateposted'' \<in> set (columns (DataFrame jobs))"
    and "''dateclosed'' \<in> set (columns (DataFrame jobs))"
    and "td (field_column ''dateposted'' jobs) = Inr (Naive f)"
    and "td (field_column ''dateclosed'' jobs) = Inr (Naive g)"
    and "\<not> is_empty (DataFrame cands)"
    and "''dateadded'' \<in> set (columns (DataFrame cands))"
    and "td (field_column ''dateadded'' cands) = Inr a"
  shows "\<exists>d. preprocess_data td \<lparr>jobs_df = DataFrame jobs, candidates_df = DataFrame cands\<rparr> = Inr d
           \<and> rows (jobs_df d) = map (job_row (Naive f) (Naive g)) (rows (DataFrame jobs))
           \<and> set (columns (jobs_df d)) = insert ''days_to_fill'' (set (columns (DataFrame jobs)))
           \<and> \<not> is_empty (jobs_df d)
           \<and> rows (candidates_df d) = map (candidate_row a) (rows (DataFrame cands))
           \<and> set (columns (candidates_df d))
                = insert ''week'' (insert ''month'' (set (columns (DataFrame cands))))
           \<and> \<not> is_empty (candidates_df d)"
proof -
  from preprocess_jobs_naive [OF assms(1-5)] obtain j where
    j: "preprocess_jobs td (DataFrame jobs) = Inr j"
    and rj: "rows j = map (job_row (Naive f) (Naive g)) (rows (DataFrame jobs))"
    and cj: "set (columns j) = insert ''days_to_fill'' (set (columns (DataFrame jobs)))"
    and nj: "\<not> is_empty j" by blast
  from preprocess_candidates_ok [of "DataFrame cands" td a] assms(6-8) obtain c where
    c: "preprocess_candidates td (DataFrame cands) = Inr c"
    and rc: "rows c = map (candidate_row a) (rows (DataFrame cands))"
    and cc: "set (columns c) = insert ''week'' (insert ''month'' (set (columns (DataFrame cands))))"
    by (auto simp: column_DataFrame)
  from cc have "''week'' \<in> set (columns c)" by simp
  with rc have nc: "\<not> is_empty c" using assms(6) by (rule not_empty_rows)
  have "preprocess_data td \<lparr>jobs_df = DataFrame jobs, candidates_df = DataFrame cands\<rparr>
          = Inr \<lparr>jobs_df = j, candidates_df = c\<rparr>"
    by (simp add: preprocess_data_def j c)
  with rj cj nj rc cc nc show ?thesis by simp
qed

text \<open>
  Recruiter A with 2 jobs, filled in 10 and 4 days, and 5 candidates, recruiter B with no
  job and 3 candidates, and no other recruiter: B is in the table with 0 jobs, the mean
  of A is 7, and the efficiencies are 5/3 and 3.
\<close>

theorem recruiter_metrics_outer_join_witness:
  "\<exists>d tbl. preprocess_data iso_to_datetime
              \<lparr>jobs_df = DataFrame
                 [[(''id'', JStr ''1''), (''title'', JStr ''Engineer''), (''status'', JStr ''closed''),
                   (''dateposted'', JStr ''2024-01-01''), (''dateclosed'', JStr ''2024-01-11''),
                   (''recruiter'', JStr ''A'')],
                  [(''id'', JStr ''2''), (''title'', JStr ''Analyst''), (''status'', JStr ''closed''),
                   (''dateposted'', JStr ''2024-01-01''), (''dateclosed'', JStr ''2024-01-05''),
                   (''recruiter'', JStr ''A'')]],
               candidates_df = DataFrame
                 [[(''dateadded'', JStr ''2024-01-03''), (''recruiter'', JStr ''A'')],
                  [(''dateadded'', JStr ''2024-01-03''), (''recruiter'', JStr ''B'')],
                  [(''dateadded'', JStr ''2024-01-03''), (''recruiter'', JStr ''A'')],
                  [(''dateadded'', JStr ''2024-01-03''), (''recruiter'', JStr ''B'')],
                  [(''dateadded'', JStr ''2024-01-03''), (''recruiter'', JStr ''A'')],
                  [(''dateadded'', JStr ''2024-01-03''), (''recruiter'', JStr ''B'')],
                  [(''dateadded'', JStr ''2024-01-03''), (''recruiter'', JStr ''A'')],
                  [(''dateadded'', JStr ''2024-01-03''), (''recruiter'', JStr ''A'')]]\<rparr> = Inr d
         \<and> create_recruiter_metrics_chart d = Inr (tbl, [5 / 3, 3])
         \<and> map Recruiter tbl = [''A'', ''B'']
         \<and> map Recruiter_Jobs tbl = [2, 0]
         \<and> map Recruiter_Days tbl = [7, 0]
         \<and> map Total_Candidates tbl = [5, 3]"
proof -
  let ?jobs = "[[(''id'', JStr ''1''), (''title'', JStr ''Engineer''), (''status'', JStr ''closed''),
                   (''dateposted'', JStr ''2024-01-01''), (''dateclosed'', JStr ''2024-01-11''),
                   (''recruiter'', JStr ''A'')],
                  [(''id'', JStr ''2''), (''title'', JStr ''Analyst''), (''status'', JStr ''closed''),
                   (''dateposted'', JStr ''2024-01-01''), (''dateclosed'', JStr ''2024-01-05''),
                   (''recruiter'', JStr ''A'')]]"
  let ?cands = "[[(''dateadded'', JStr ''2024-01-03''), (''recruiter'', JStr ''A'')],
                  [(''dateadded'', JStr ''2024-01-03''), (''recruiter'', JStr ''B'')],
                  [(''dateadded'', JStr ''2024-01-03''), (''recruiter'', JStr ''A'')],
                  [(''dateadded'', JStr ''2024-01-03''), (''recruiter'', JStr ''B'')],
                  [(''dateadded'', JStr ''2024-01-03''), (''recruiter'', JStr ''A'')],
                  [(''dateadded'', JStr ''2024-01-03''), (''recruiter'', JStr ''B'')],
                  [(''dateadded'', JStr ''2024-01-03''), (''recruiter'', JStr ''A'')],
                  [(''dateadded'', JStr ''2024-01-03''), (''recruiter'', JStr ''A'')]]"
  let ?J = "DataFrame ?jobs" and ?C = "DataFrame ?cands"
  have cj: "columns ?J = [''id'', ''title'', ''status'', ''dateposted'', ''dateclosed'', ''recruiter'']"
    by (simp add: DataFrame_def uniq_def)
  have cc: "columns ?C = [''dateadded'', ''recruiter'']"
    by (simp add: DataFrame_def uniq_def)
  have nj: "\<not> is_empty ?J" by (simp add: is_empty_def cj rows_DataFrame)
  have nc: "\<not> is_empty ?C" by (simp add: is_empty_def cc rows_DataFrame)
  have tp: "iso_to_datetime (field_column ''dateposted'' ?jobs) = Inr (Naive iso_date)"
    by (simp add: field_column_def cell_of_def iso_to_datetime_dates iso_dates)
  have tc: "iso_to_datetime (field_column ''dateclosed'' ?jobs) = Inr (Naive iso_date)"
    by (simp add: field_column_def cell_of_def iso_to_datetime_dates iso_dates)
  have ta: "iso_to_datetime (field_column ''dateadded'' ?cands) = Inr (Naive iso_date)"
    by (simp add: field_column_def cell_of_def iso_to_datetime_dates iso_dates)
  have "\<exists>d. preprocess_data iso_to_datetime \<lparr>jobs_df = ?J, candidates_df = ?C\<rparr> = Inr d
           \<and> rows (jobs_df d) = map (job_row (Naive iso_date) (Naive iso_date)) (rows ?J)
           \<and> set (columns (jobs_df d)) = insert ''days_to_fill'' (set (columns ?J))
           \<and> \<not> is_empty (jobs_df d)
           \<and> rows (candidates_df d) = map (candidate_row (Naive iso_date)) (rows ?C)
           \<and> set (columns (candidates_df d)) = insert ''week'' (insert ''month'' (set (columns ?C)))
           \<and> \<not> is_empty (candidates_df d)"
    by (rule preprocess_data_naive) (simp_all add: nj nc cj cc tp tc ta)
  then obtain d where
    d: "preprocess_data iso_to_datetime \<lparr>jobs_df = ?J, candidates_df = ?C\<rparr> = Inr d"
    and rj: "rows (jobs_df d) = map (job_row (Naive iso_date) (Naive iso_date)) (rows ?J)"
    and sj: "set (columns (jobs_df d)) = insert ''days_to_fill'' (set (columns ?J))"
    and nj': "\<not> is_empty (jobs_df d)"
    and rc: "rows (candidates_df d) = map (candidate_row (Naive iso_date)) (rows ?C)"
    and sc: "set (columns (candidates_df d)) = insert ''week'' (insert ''month'' (set (columns ?C)))"
    and nc': "\<not> is_empty (candidates_df d)" by blast
  have h3: "set [''recruiter'', ''id'', ''days_to_fill''] \<subseteq> set (columns (jobs_df d))"
    by (simp add: sj cj)
  have h4: "''recruiter'' \<in> set (columns (candidates_df d))" by (simp add: sc cc)
  have jr: "map (\<lambda>r. r ''recruiter'') (rows (jobs_df d)) = [Str ''A'', Str ''A'']"
    by (simp add: rj rows_DataFrame job_row_def cell_of_def)
  have cr: "map (\<lambda>r. r ''recruiter'') (rows (candidates_df d))
              = [Str ''A'', Str ''B'', Str ''A'', Str ''B'', Str ''A'', Str ''B'', Str ''A'', Str ''A'']"
    by (simp add: rc rows_DataFrame candidate_row_def cell_of_def)
  have keys: "{k. Str k \<in> set [Str ''A'', Str ''A'']
                  \<or> Str k \<in> set [Str ''A'', Str ''B'', Str ''A'', Str ''B'', Str ''A'', Str ''B'',
                                   Str ''A'', Str ''A'']} = {''A'', ''B''}"
    by auto
  have ord: "\<not> ''B'' \<le> ''A''" by (simp add: less_eq_char_def less_char_def)
  have a: "spec_recruiter_row (jobs_df d) (candidates_df d) ''A''
             = \<lparr>Recruiter = ''A'', Recruiter_Jobs = 2, Recruiter_Days = 7, Total_Candidates = 5\<rparr>"
    by (simp add: spec_recruiter_row_def rj rc rows_DataFrame job_row_def candidate_row_def cell_of_def
          coerce_def map_filter_simps days_defined_def iso_dates day_def)
  have b: "spec_recruiter_row (jobs_df d) (candidates_df d) ''B''
             = \<lparr>Recruiter = ''B'', Recruiter_Jobs = 0, Recruiter_Days = 0, Total_Candidates = 3\<rparr>"
    by (simp add: spec_recruiter_row_def rj rc rows_DataFrame job_row_def candidate_row_def cell_of_def
          coerce_def map_filter_simps days_defined_def iso_dates day_def)
  from recruiter_metrics_outer_join [OF nj' nc' h3 h4] obtain tbl eff where
    res: "create_recruiter_metrics_chart d = Inr (tbl, eff)"
    and st: "sorted (map Recruiter tbl)" and dt: "distinct (map Recruiter tbl)"
    and len: "length tbl
                = min 10 (card {k. Str k \<in> set (map (\<lambda>r. r ''recruiter'') (rows (jobs_df d)))
                                   \<or> Str k \<in> set (map (\<lambda>r. r ''recruiter'') (rows (candidates_df d)))})"
    and all: "\<forall>r\<in>set tbl.
               (Str (Recruiter r) \<in> set (map (\<lambda>r. r ''recruiter'') (rows (jobs_df d)))
                \<or> Str (Recruiter r) \<in> set (map (\<lambda>r. r ''recruiter'') (rows (candidates_df d))))
               \<and> r = spec_recruiter_row (jobs_df d) (candidates_df d) (Recruiter r)"
    and eff: "eff = map (\<lambda>r. Total_Candidates r / (Recruiter_Jobs r + 1)) tbl"
    by blast
  from len have "length tbl = 2" unfolding jr cr keys by simp
  then obtain r1 r2 where t: "tbl = [r1, r2]"
    by (cases tbl; cases "tl tbl") auto
  from all have "Recruiter r1 \<in> {k. Str k \<in> set (map (\<lambda>r. r ''recruiter'') (rows (jobs_df d)))
                                   \<or> Str k \<in> set (map (\<lambda>r. r ''recruiter'') (rows (candidates_df d)))}"
    and "Recruiter r2 \<in> {k. Str k \<in> set (map (\<lambda>r. r ''recruiter'') (rows (jobs_df d)))
                                   \<or> Str k \<in> set (map (\<lambda>r. r ''recruiter'') (rows (candidates_df d)))}"
    by (simp_all add: t)
  then have k1: "Recruiter r1 = ''A'' \<or> Recruiter r1 = ''B''"
    and k2: "Recruiter r2 = ''A'' \<or> Recruiter r2 = ''B''"
    unfolding jr cr keys by simp_all
  from st dt have "Recruiter r1 \<le> Recruiter r2" "Recruiter r1 \<noteq> Recruiter r2" by (simp_all add: t)
  with k1 k2 ord have ka: "Recruiter r1 = ''A''" and kb: "Recruiter r2 = ''B''" by auto
  from all have "r1 = spec_recruiter_row (jobs_df d) (candidates_df d) (Recruiter r1)"
    and "r2 = spec_recruiter_row (jobs_df d) (candidates_df d) (Recruiter r2)"
    by (simp_all add: t)
  then have r1: "r1 = \<lparr>Recruiter = ''A'', Recruiter_Jobs = 2, Recruiter_Days = 7, Total_Candidates = 5\<rparr>"
    and r2: "r2 = \<lparr>Recruiter = ''B'', Recruiter_Jobs = 0, Recruiter_Days = 0, Total_Candidates = 3\<rparr>"
    by (simp_all only: ka kb a b)
  have e: "eff = [5 / 3, 3]" unfolding eff t r1 r2 by simp
  from d res show ?thesis unfolding e by (auto simp: t r1 r2)
qed

text \<open>
  C2 as stated fails when there are more than ten recruiters. Recruiter A has 2 jobs and 5
  candidates, recruiter B has no job and 3 candidates, and the recruiters A1 to A9 have one
  candidate each: the table is cut to the ten recruiters A, A1, ..., A9, and B is not in
  the result.
\<close>

theorem recruiter_metrics_truncated_counterexample:
  "(case preprocess_data iso_to_datetime
           \<lparr>jobs_df = DataFrame
              [[(''id'', JStr ''1''), (''title'', JStr ''Engineer''), (''status'', JStr ''closed''),
                (''dateposted'', JStr ''2024-01-01''), (''dateclosed'', JStr ''2024-01-11''),
                (''recruiter'', JStr ''A'')],
               [(''id'', JStr ''2''), (''title'', JStr ''Analyst''), (''status'', JStr ''closed''),
                (''dateposted'', JStr ''2024-01-01''), (''dateclosed'', JStr ''2024-01-05''),
                (''recruiter'', JStr ''A'')]],
            candidates_df = DataFrame
              [[(''dateadded'', JStr ''2024-01-03''), (''recruiter'', JStr ''A'')],
               [(''dateadded'', JStr ''2024-01-03''), (''recruiter'', JStr ''A'')],
               [(''dateadded'', JStr ''2024-01-03''), (''recruiter'', JStr ''A'')],
               [(''dateadded'', JStr ''2024-01-03''), (''recruiter'', JStr ''A'')],
               [(''dateadded'', JStr ''2024-01-03''), (''recruiter'', JStr ''A'')],
               [(''dateadded'', JStr ''2024-01-03''), (''recruiter'', JStr ''B'')],
               [(''dateadded'', JStr ''2024-01-03''), (''recruiter'', JStr ''B'')],
               [(''dateadded'', JStr ''2024-01-03''), (''recruiter'', JStr ''B'')],
               [(''dateadded'', JStr ''2024-01-03''), (''recruiter'', JStr ''A1'')],
               [(''dateadded'', JStr ''2024-01-03''), (''recruiter'', JStr ''A2'')],
               [(''dateadded'', JStr ''2024-01-03''), (''recruiter'', JStr ''A3'')],
               [(''dateadded'', JStr ''2024-01-03''), (''recruiter'', JStr ''A4'')],
               [(''dateadded'', JStr ''2024-01-03''), (''recruiter'', JStr ''A5'')],
               [(''dateadded'', JStr ''2024-01-03''), (''recruiter'', JStr ''A6'')],
               [(''dateadded'', JStr ''2024-01-03''), (''recruiter'', JStr ''A7'')],
               [(''dateadded'', JStr ''2024-01-03''), (''recruiter'', JStr ''A8'')],
               [(''dateadded'', JStr ''2024-01-03''), (''recruiter'', JStr ''A9'')]]\<rparr> of
      Inl e \<Rightarrow> []
    | Inr d \<Rightarrow>
        (case create_recruiter_metrics_chart d of
           Inl e \<Rightarrow> []
         | Inr res \<Rightarrow> map Recruiter (fst res)))
   = [''A'', ''A1'', ''A2'', ''A3'', ''A4'', ''A5'', ''A6'', ''A7'', ''A8'', ''A9'']"
proof -
  let ?jobs = "[[(''id'', JStr ''1''), (''title'', JStr ''Engineer''), (''status'', JStr ''closed''),
                (''dateposted'', JStr ''2024-01-01''), (''dateclosed'', JStr ''2024-01-11''),
                (''recruiter'', JStr ''A'')],
               [(''id'', JStr ''2''), (''title'', JStr ''Analyst''), (''status'', JStr ''closed''),
                (''dateposted'', JStr ''2024-01-01''), (''dateclosed'', JStr ''2024-01-05''),
                (''recruiter'', JStr ''A'')]]"
  let ?cands = "[[(''dateadded'', JStr ''2024-01-03''), (''recruiter'', JStr ''A'')],
               [(''dateadded'', JStr ''2024-01-03''), (''recruiter'', JStr ''A'')],
               [(''dateadded'', JStr ''2024-01-03''), (''recruiter'', JStr ''A'')],
               [(''dateadded'', JStr ''2024-01-03''), (''recruiter'', JStr ''A'')],
               [(''dateadded'', JStr ''2024-01-03''), (''recruiter'', JStr ''A'')],
               [(''dateadded'', JStr ''2024-01-03''), (''recruiter'', JStr ''B'')],
               [(''dateadded'', JStr ''2024-01-03''), (''recruiter'', JStr ''B'')],
               [(''dateadded'', JStr ''2024-01-03''), (''recruiter'', JStr ''B'')],
               [(''dateadded'', JStr ''2024-01-03''), (''recruiter'', JStr ''A1'')],
               [(''dateadded'', JStr ''2024-01-03''), (''recruiter'', JStr ''A2'')],
               [(''dateadded'', JStr ''2024-01-03''), (''recruiter'', JStr ''A3'')],
               [(''dateadded'', JStr ''2024-01-03''), (''recruiter'', JStr ''A4'')],
               [(''dateadded'', JStr ''2024-01-03''), (''recruiter'', JStr ''A5'')],
               [(''dateadded'', JStr ''2024-01-03''), (''recruiter'', JStr ''A6'')],
               [(''dateadded'', JStr ''2024-01-03''), (''recruiter'', JStr ''A7'')],
               [(''dateadded'', JStr ''2024-01-03''), (''recruiter'', JStr ''A8'')],
               [(''dateadded'', JStr ''2024-01-03''), (''recruiter'', JStr ''A9'')]]"
  let ?J = "DataFrame ?jobs" and ?C = "DataFrame ?cands"
  have cj: "columns ?J = [''id'', ''title'', ''status'', ''dateposted'', ''dateclosed'', ''recruiter'']"
    by (simp add: DataFrame_def uniq_def)
  have cc: "columns ?C = [''dateadded'', ''recruiter'']"
    by (simp add: DataFrame_def uniq_def)
  have nj: "\<not> is_empty ?J" by (simp add: is_empty_def cj rows_DataFrame)
  have nc: "\<not> is_empty ?C" by (simp add: is_empty_def cc rows_DataFrame)
  have tp: "iso_to_datetime (field_column ''dateposted'' ?jobs) = Inr (Naive iso_date)"
    by (simp add: field_column_def cell_of_def iso_to_datetime_dates iso_dates)
  have tc: "iso_to_datetime (field_column ''dateclosed'' ?jobs) = Inr (Naive iso_date)"
    by (simp add: field_column_def cell_of_def iso_to_datetime_dates iso_dates)
  have ta: "iso_to_datetime (field_column ''dateadded'' ?cands) = Inr (Naive iso_date)"
    by (simp add: field_column_def cell_of_def iso_to_datetime_dates iso_dates)
  have "\<exists>d. preprocess_data iso_to_datetime \<lparr>jobs_df = ?J, candidates_df = ?C\<rparr> = Inr d
           \<and> rows (jobs_df d) = map (job_row (Naive iso_date) (Naive iso_date)) (rows ?J)
           \<and> set (columns (jobs_df d)) = insert ''days_to_fill'' (set (columns ?J))
           \<and> \<not> is_empty (jobs_df d)
           \<and> rows (candidates_df d) = map (candidate_row (Naive iso_date)) (rows ?C)
           \<and> set (columns (candidates_df d)) = insert ''week'' (insert ''month'' (set (columns ?C)))
           \<and> \<not> is_empty (candidates_df d)"
    by (rule preprocess_data_naive) (simp_all add: nj nc cj cc tp tc ta)
  then obtain d where
    d: "preprocess_data iso_to_datetime \<lparr>jobs_df = ?J, candidates_df = ?C\<rparr> = Inr d"
    and rj: "rows (jobs_df d) = map (job_row (Naive iso_date) (Naive iso_date)) (rows ?J)"
    and sj: "set (columns (jobs_df d)) = insert ''days_to_fill'' (set (columns ?J))"
    and nj': "\<not> is_empty (jobs_df d)"
    and rc: "rows (candidates_df d) = map (candidate_row (Naive iso_date)) (rows ?C)"
    and sc: "set (columns (candidates_df d)) = insert ''week'' (insert ''month'' (set (columns ?C)))"
    and nc': "\<not> is_empty (candidates_df d)" by blast
  have h3: "set [''recruiter'', ''id'', ''days_to_fill''] \<subseteq> set (columns (jobs_df d))"
    by (simp add: sj cj)
  have h4: "''recruiter'' \<in> set (columns (candidates_df d))" by (simp add: sc cc)
  have jr: "map (\<lambda>r. r ''recruiter'') (rows (jobs_df d)) = [Str ''A'', Str ''A'']"
    by (simp add: rj rows_DataFrame job_row_def cell_of_def)
  have cr: "map (\<lambda>r. r ''recruiter'') (rows (candidates_df d))
              = [Str ''A'', Str ''A'', Str ''A'', Str ''A'', Str ''A'', Str ''B'', Str ''B'', Str ''B'',
                 Str ''A1'', Str ''A2'', Str ''A3'', Str ''A4'', Str ''A5'', Str ''A6'', Str ''A7'',
                 Str ''A8'', Str ''A9'']"
    by (simp add: rc rows_DataFrame candidate_row_def cell_of_def)
  have keys: "take 10 (sort (remdups
                (groupby_keys [Str ''A'', Str ''A'']
                 @ groupby_keys [Str ''A'', Str ''A'', Str ''A'', Str ''A'', Str ''A'', Str ''B'',
                                 Str ''B'', Str ''B'', Str ''A1'', Str ''A2'', Str ''A3'', Str ''A4'',
                                 Str ''A5'', Str ''A6'', Str ''A7'', Str ''A8'', Str ''A9''])))
              = [''A'', ''A1'', ''A2'', ''A3'', ''A4'', ''A5'', ''A6'', ''A7'', ''A8'', ''A9'']"
    by (simp add: groupby_keys_def less_eq_char_def less_char_def)
  have "map Recruiter (fst (map (spec_recruiter_row (jobs_df d) (candidates_df d))
                    (take 10 (sort (remdups
                       (groupby_keys (map (\<lambda>r. r ''recruiter'') (rows (jobs_df d)))
                        @ groupby_keys (map (\<lambda>r. r ''recruiter'') (rows (candidates_df d))))))),
                  map (\<lambda>r. Total_Candidates r / (Recruiter_Jobs r + 1))
                    (map (spec_recruiter_row (jobs_df d) (candidates_df d))
                       (take 10 (sort (remdups
                          (groupby_keys (map (\<lambda>r. r ''recruiter'') (rows (jobs_df d)))
                           @ groupby_keys (map (\<lambda>r. r ''recruiter'') (rows (candidates_df d))))))))))
          = [''A'', ''A1'', ''A2'', ''A3'', ''A4'', ''A5'', ''A6'', ''A7'', ''A8'', ''A9'']"
    unfolding jr cr keys by (simp add: recruiter_of_spec_row)
  then show ?thesis
    by (simp only: d sum.case recruiter_chart_table [OF nj' nc' h3 h4])
qed

end
